theory Spec2Isabelle
  imports Main "HOL-Library.Product_Lexorder"
begin

section \<open>Strings\<close>

text \<open>
  Python strings are sequences of code points. The model uses \<^typ>\<open>string\<close> and reads each
  \<^typ>\<open>char\<close> as one Latin-1 code point, which covers every keyword of the chatbot
  (\<open>ol\<aacute>\<close> is \<open>o, l, 0xE1\<close>). \<open>str.lower\<close>, \<open>str.strip\<close>, the substring test
  \<open>a in b\<close> and the class \<open>\d\<close> are written out for that range.
\<close>

definition lower_char :: "char \<Rightarrow> char" where
  "lower_char c =
     (let n = (of_char c :: nat)
      in if (65 \<le> n \<and> n \<le> 90) \<or> (192 \<le> n \<and> n \<le> 222 \<and> n \<noteq> 215)
         then char_of (n + 32) else c)"

definition lower :: "string \<Rightarrow> string" where
  "lower s = map lower_char s"

definition is_space :: "char \<Rightarrow> bool" where
  "is_space c =
     (let n = (of_char c :: nat)
      in (9 \<le> n \<and> n \<le> 13) \<or> (28 \<le> n \<and> n \<le> 32) \<or> n = 133 \<or> n = 160)"

definition strip :: "string \<Rightarrow> string" where
  "strip s = rev (dropWhile is_space (rev (dropWhile is_space s)))"

definition is_digit :: "char \<Rightarrow> bool" where
  "is_digit c = (let n = (of_char c :: nat) in 48 \<le> n \<and> n \<le> 57)"

definition digit_val :: "char \<Rightarrow> nat" where
  "digit_val c = (of_char c :: nat) - 48"

fun starts_with :: "string \<Rightarrow> string \<Rightarrow> bool" where
  "starts_with s [] = True"
| "starts_with [] (p # ps) = False"
| "starts_with (c # cs) (p # ps) = (c = p \<and> starts_with cs ps)"

text \<open>\<open>str_in sub s\<close> is Python's \<open>sub in s\<close>.\<close>

fun str_in :: "string \<Rightarrow> string \<Rightarrow> bool" where
  "str_in sub [] = (sub = [])"
| "str_in sub (c # cs) = (starts_with (c # cs) sub \<or> str_in sub cs)"

text \<open>\<open>any_in ws s\<close> is \<open>any(w in s for w in ws)\<close>.\<close>

definition any_in :: "string list \<Rightarrow> string \<Rightarrow> bool" where
  "any_in ws s = list_ex (\<lambda>w. str_in w s) ws"

definition digit_char :: "nat \<Rightarrow> char" where
  "digit_char n = ''0123456789'' ! (n mod 10)"

text \<open>The format \<open>{n:02d}\<close> for \<open>0 \<le> n\<close>.\<close>

function dec_digits :: "nat \<Rightarrow> string" where
  "dec_digits n = (if n < 10 then [digit_char n] else dec_digits (n div 10) @ [digit_char n])"
  by pat_completeness auto
termination
  by (relation "measure id") auto

declare dec_digits.simps [simp del]

definition fmt02 :: "nat \<Rightarrow> string" where
  "fmt02 n = (if n < 10 then CHR ''0'' # dec_digits n else dec_digits n)"

definition fmt04 :: "nat \<Rightarrow> string" where
  "fmt04 n = replicate (4 - length (dec_digits n)) CHR ''0'' @ dec_digits n"

section \<open>Dates and the clock\<close>

text \<open>
  A \<open>datetime.date\<close> is its proleptic Gregorian ordinal (\<open>date.toordinal()\<close>), so
  \<open>d + timedelta(days=k)\<close> is \<open>d + k\<close> and \<open>date.weekday()\<close> is \<open>(d + 6) mod 7\<close>, Monday
  being 0. The text \<open>strftime('%Y-%m-%d')\<close> of a date, which the source stores and parses
  back with \<open>strptime\<close>, is identified with the date itself. A time of day on a whole
  minute is the number of minutes since midnight.
\<close>

type_synonym date = int

definition weekday :: "date \<Rightarrow> int" where
  "weekday d = (d + 6) mod 7"

record clock =
  hoje :: date
  agora_seg :: int

text \<open>
  \<open>datetime.now()\<close> is \<open>hoje\<close> at \<open>agora_seg\<close> whole seconds after midnight; the fraction of
  a second is dropped, which does not change a comparison with a whole minute. One clock
  value stands for every reading of the time during one call.
\<close>

definition DAYS_BEFORE_MONTH :: "nat list" where
  "DAYS_BEFORE_MONTH = [0, 0, 31, 59, 90, 120, 151, 181, 212, 243, 273, 304, 334]"

definition DAYS_IN_MONTH :: "nat list" where
  "DAYS_IN_MONTH = [0, 31, 28, 31, 30, 31, 30, 31, 31, 30, 31, 30, 31]"

text \<open>\<open>datetime._ord2ymd\<close>: the year, month and day of an ordinal \<open>n \<ge> 1\<close>.\<close>

definition ord2ymd :: "nat \<Rightarrow> nat \<times> nat \<times> nat" where
  "ord2ymd ordinal =
     (let n0 = ordinal - 1;
          n400 = n0 div 146097; n1' = n0 mod 146097;
          n100 = n1' div 36524; n2' = n1' mod 36524;
          n4 = n2' div 1461; n3' = n2' mod 1461;
          n1 = n3' div 365; n = n3' mod 365;
          year = n400 * 400 + 1 + n100 * 100 + n4 * 4 + n1
      in if n1 = 4 \<or> n100 = 4 then (year - 1, 12, 31)
         else
           let leapyear = (n1 = 3 \<and> (n4 \<noteq> 24 \<or> n100 = 3));
               month = (n + 50) div 32;
               preceding = DAYS_BEFORE_MONTH ! month + (if month > 2 \<and> leapyear then 1 else 0)
           in if preceding > n
              then let month' = month - 1;
                       preceding' = preceding -
                         (DAYS_IN_MONTH ! month' + (if month' = 2 \<and> leapyear then 1 else 0))
                   in (year, month', n - preceding' + 1)
              else (year, month, n - preceding + 1))"

text \<open>\<open>strftime('%d/%m/%Y')\<close> and \<open>strftime('%H:%M')\<close>.\<close>

definition strftime_dmY :: "date \<Rightarrow> string" where
  "strftime_dmY d =
     (case ord2ymd (nat d) of (y, m, dd) \<Rightarrow> fmt02 dd @ ''/'' @ fmt02 m @ ''/'' @ fmt04 y)"

definition strftime_HM :: "int \<Rightarrow> string" where
  "strftime_HM m = fmt02 (nat m div 60 mod 24) @ '':'' @ fmt02 (nat m mod 60)"

text \<open>
  \<open>datetime.strptime(s, '%H:%M').time()\<close> in minutes since midnight. The format compiles
  to \<open>(2[0-3]|[0-1]\d|\d):([0-5]\d|\d)\<close>, matched at the start; text left over after the
  match raises ValueError, which is \<open>None\<close> here.
\<close>

definition hour_ok :: "char \<Rightarrow> char \<Rightarrow> bool" where
  "hour_ok a b =
     ((a = CHR ''2'' \<and> b \<in> set ''0123'') \<or> (a \<in> set ''01'' \<and> is_digit b))"

fun strptime_HM :: "string \<Rightarrow> int option" where
  "strptime_HM [a, s, c] =
     (if is_digit a \<and> s = CHR '':'' \<and> is_digit c
      then Some (int (digit_val a * 60 + digit_val c)) else None)"
| "strptime_HM [a, b, c, d] =
     (if is_digit a \<and> b = CHR '':'' \<and> c \<in> set ''012345'' \<and> is_digit d
      then Some (int (digit_val a * 60 + (digit_val c * 10 + digit_val d)))
      else if hour_ok a b \<and> c = CHR '':'' \<and> is_digit d
      then Some (int ((digit_val a * 10 + digit_val b) * 60 + digit_val d))
      else None)"
| "strptime_HM [a, b, s, c, d] =
     (if hour_ok a b \<and> s = CHR '':'' \<and> c \<in> set ''012345'' \<and> is_digit d
      then Some (int ((digit_val a * 10 + digit_val b) * 60 + (digit_val c * 10 + digit_val d)))
      else None)"
| "strptime_HM s = None"

section \<open>The database\<close>

text \<open>
  The SQLite tables of \<open>database.py\<close> that the chatbot reads and writes, each a list of
  rows in insertion order. Columns that only feed message texts or timestamps of the rows
  themselves (\<open>criado_em\<close>, \<open>endereco\<close>, \<open>telefone\<close>, \<open>descricao\<close>) are left out. Columns
  declared \<open>NOT NULL\<close> hold plain values; a nullable column is an \<open>option\<close>. An insert
  fails only where a constraint of the schema rejects the row. A query answers, except the
  one query whose failure the code handles by a branch of its own: the count of
  \<open>_verificar_disponibilidade_slot_simples\<close>, see \<open>db_falha_consulta\<close> below.
\<close>

record paciente =
  pac_id :: int
  pac_cpf :: string
  pac_nome :: string

record local_atendimento =
  loc_id :: int
  loc_nome :: string
  loc_cidade :: "string option"
  loc_ativo :: bool

record especialidade =
  esp_id :: int
  esp_nome :: string
  esp_ativo :: bool
  esp_requer_anexo :: bool

record medico =
  med_id :: int
  med_nome :: string
  med_crm :: "string option"
  med_especialidade_id :: int
  med_ativo :: bool
  med_data_abertura_agenda :: "date option"

record horario_disponivel =
  hdisp_id :: int
  hdisp_medico_id :: int
  hdisp_local_id :: int
  hdisp_dia_semana :: int
  hdisp_hora_inicio :: string
  hdisp_hora_fim :: string
  hdisp_duracao_consulta :: "int option"
  hdisp_ativo :: bool

record agendamento =
  ag_id :: int
  ag_paciente_id :: int
  ag_medico_id :: int
  ag_especialidade_id :: int
  ag_local_id :: int
  ag_data :: date
  ag_hora :: string
  ag_observacoes :: string
  ag_status :: string
  ag_anexo_nome :: string
  ag_anexo_path :: string
  ag_motivo_cancelamento :: string

record db =
  db_pacientes :: "paciente list"
  db_locais :: "local_atendimento list"
  db_especialidades :: "especialidade list"
  db_medicos :: "medico list"
  db_horarios_disponiveis :: "horario_disponivel list"
  db_agendamentos :: "agendamento list"
  db_seq_pacientes :: int
  db_seq_agendamentos :: int
  db_falha_consulta :: "int \<Rightarrow> date \<Rightarrow> string \<Rightarrow> bool"

text \<open>
  \<open>med_data_abertura_agenda\<close> is \<open>None\<close> when the column is empty or holds a text that
  \<open>strptime\<close> rejects: \<open>Medico.agenda_aberta\<close> answers \<open>True\<close> in both cases.
  \<open>db_seq_*\<close> are the AUTOINCREMENT counters: the id the next insert gets.
  \<open>db_falha_consulta bd medico_id data hora\<close> tells that \<open>db.execute_query\<close> raises (a locked
  or unreachable database file) when it is asked to count the scheduled appointments of
  that doctor, date and time. It is a property of the query: asked twice during one call,
  the same count fails both times or answers both times.
\<close>

definition find_first :: "('a \<Rightarrow> bool) \<Rightarrow> 'a list \<Rightarrow> 'a option" where
  "find_first P xs = (case filter P xs of [] \<Rightarrow> None | x # _ \<Rightarrow> Some x)"

definition Medico_find_by_id :: "db \<Rightarrow> int \<Rightarrow> medico option" where
  "Medico_find_by_id bd i = find_first (\<lambda>m. med_id m = i) (db_medicos bd)"

definition Local_find_by_id :: "db \<Rightarrow> int \<Rightarrow> local_atendimento option" where
  "Local_find_by_id bd i = find_first (\<lambda>l. loc_id l = i) (db_locais bd)"

definition Especialidade_find_by_id :: "db \<Rightarrow> int \<Rightarrow> especialidade option" where
  "Especialidade_find_by_id bd i = find_first (\<lambda>e. esp_id e = i) (db_especialidades bd)"

definition Paciente_find_by_id :: "db \<Rightarrow> int \<Rightarrow> paciente option" where
  "Paciente_find_by_id bd i = find_first (\<lambda>p. pac_id p = i) (db_pacientes bd)"

definition Paciente_find_by_cpf :: "db \<Rightarrow> string \<Rightarrow> paciente option" where
  "Paciente_find_by_cpf bd cpf = find_first (\<lambda>p. pac_cpf p = cpf) (db_pacientes bd)"

definition Agendamento_find_by_id :: "db \<Rightarrow> int \<Rightarrow> agendamento option" where
  "Agendamento_find_by_id bd i = find_first (\<lambda>a. ag_id a = i) (db_agendamentos bd)"

text \<open>\<open>Medico.agenda_aberta(data_consulta)\<close>.\<close>

definition agenda_aberta :: "medico \<Rightarrow> date \<Rightarrow> bool" where
  "agenda_aberta m data_consulta =
     (case med_data_abertura_agenda m of
        None \<Rightarrow> True
      | Some data_abertura \<Rightarrow> data_consulta \<ge> data_abertura)"

section \<open>Slot generation\<close>

text \<open>
  A row of \<open>SELECT m.*, h.* FROM medicos m JOIN horarios_disponiveis h\<close> is the pair of the
  doctor row and the availability row. \<open>row['id']\<close> is the first column of that name, the
  doctor's. \<open>sqlite3.Row\<close> has no \<open>__contains__\<close>, so \<open>'medico_id' in row\<close> runs over the
  values of the row and asks whether one of them is the text \<open>medico_id\<close>.
\<close>

type_synonym row = "medico \<times> horario_disponivel"

definition row_values :: "row \<Rightarrow> string list" where
  "row_values r =
     [med_nome (fst r)] @ (case med_crm (fst r) of None \<Rightarrow> [] | Some c \<Rightarrow> [c]) @
     [hdisp_hora_inicio (snd r), hdisp_hora_fim (snd r)]"

definition row_medico_id :: "row \<Rightarrow> int" where
  "row_medico_id r =
     (if ''medico_id'' \<in> set (row_values r) then hdisp_medico_id (snd r) else med_id (fst r))"

text \<open>The slot descriptor that \<open>_gerar_horarios_disponiveis\<close> builds (\<open>horario_info\<close>).\<close>

record horario =
  h_medico_id :: int
  h_medico_nome :: string
  h_especialidade :: string
  h_crm :: "string option"
  h_local_id :: int
  h_local_nome :: string
  h_data :: date
  h_hora :: string
  h_data_formatada :: string
  h_hora_formatada :: string
  h_dia_semana :: string
  h_duracao :: int
  h_timestamp :: int

text \<open>
  \<open>h_timestamp\<close> stands for \<open>slot_datetime.timestamp()\<close> and is the seconds of the naive
  datetime, \<open>86400 * date + 60 * minute\<close>. The POSIX number that Python returns is this
  value shifted by a constant, the epoch and the offset of the local zone (a zone without
  daylight-saving changes, as in Brazil); the code only compares timestamps with each
  other, in the sort key, so the shift is not seen. The key \<open>medico\<close> repeats \<open>medico_nome\<close>
  and is not kept apart.
\<close>

text \<open>
  The query \<open>SELECT COUNT(*) as count FROM agendamentos WHERE medico_id = ? AND data = ? AND
  hora = ? AND status = 'agendado'\<close> of \<open>_verificar_disponibilidade_slot_simples\<close>: \<open>None\<close>
  when \<open>db.execute_query\<close> raises, otherwise the count.
\<close>

definition contar_agendados :: "db \<Rightarrow> int \<Rightarrow> date \<Rightarrow> string \<Rightarrow> nat option" where
  "contar_agendados bd medico_id data hora =
     (if db_falha_consulta bd medico_id data hora then None
      else Some (length (filter (\<lambda>a. ag_medico_id a = medico_id \<and> ag_data a = data \<and>
                                       ag_hora a = hora \<and> ag_status a = ''agendado'')
                                 (db_agendamentos bd))))"

text \<open>
  \<open>_verificar_disponibilidade_slot_simples(medico_id, data, hora)\<close>. The bare \<open>except\<close>
  clause answers \<open>True\<close>: a slot whose query failed is taken as available.
\<close>

definition verificar_disponibilidade_slot_simples :: "db \<Rightarrow> int \<Rightarrow> date \<Rightarrow> string \<Rightarrow> bool" where
  "verificar_disponibilidade_slot_simples bd medico_id data hora =
     (case contar_agendados bd medico_id data hora of
        Some count \<Rightarrow> \<not> (count > 0)
      | None \<Rightarrow> True)"

definition obter_nome_local :: "db \<Rightarrow> int \<Rightarrow> string" where
  "obter_nome_local bd local_id =
     (case Local_find_by_id bd local_id of
        Some l \<Rightarrow> loc_nome l
      | None \<Rightarrow> ''Local n'' @ [CHR 0xE3] @ ''o encontrado'')"

text \<open>
  \<open>_obter_dados_medico\<close> joins the doctor with the specialty; only the specialty name of
  the result is read.
\<close>

definition obter_dados_medico :: "db \<Rightarrow> int \<Rightarrow> string option" where
  "obter_dados_medico bd medico_id =
     (case [esp_nome e. m \<leftarrow> db_medicos bd, e \<leftarrow> db_especialidades bd,
                        med_especialidade_id m = esp_id e, med_id m = medico_id] of
        [] \<Rightarrow> None
      | n # _ \<Rightarrow> Some n)"

definition nomes_dia_semana :: "string list" where
  "nomes_dia_semana =
     [''Segunda'', ''Ter'' @ [CHR 0xE7] @ ''a'', ''Quarta'', ''Quinta'', ''Sexta'',
      ''S'' @ [CHR 0xE1] @ ''bado'', ''Domingo'']"

definition duracao_consulta :: "row \<Rightarrow> int" where
  "duracao_consulta r =
     (case hdisp_duracao_consulta (snd r) of
        None \<Rightarrow> 30
      | Some d \<Rightarrow> if d = 0 then 30 else if d < 5 then 30 else d)"

definition horario_info :: "db \<Rightarrow> row \<Rightarrow> date \<Rightarrow> int \<Rightarrow> horario" where
  "horario_info bd r data_atual slot =
     (let medico_id = row_medico_id r;
          nome_local = obter_nome_local bd (hdisp_local_id (snd r));
          dados_medico = obter_dados_medico bd medico_id;
          especialidade_nome = (case dados_medico of Some n \<Rightarrow> n | None \<Rightarrow> ''Especialidade'');
          dia_semana = weekday data_atual
      in \<lparr> h_medico_id = medico_id,
           h_medico_nome = med_nome (fst r),
           h_especialidade = especialidade_nome,
           h_crm = med_crm (fst r),
           h_local_id = hdisp_local_id (snd r),
           h_local_nome = nome_local,
           h_data = data_atual,
           h_hora = strftime_HM slot,
           h_data_formatada = strftime_dmY data_atual,
           h_hora_formatada = strftime_HM slot,
           h_dia_semana = (if dia_semana < 7 then nomes_dia_semana ! nat dia_semana else ''N/A''),
           h_duracao = duracao_consulta r,
           h_timestamp = data_atual * 86400 + slot * 60 \<rparr>)"

text \<open>
  The test \<open>data_atual == hoje\<close> and \<open>slot_datetime <= datetime.now() + timedelta(hours=1)\<close>
  that skips a slot of today without one hour of margin, both sides in seconds.
\<close>

definition passado_ou_sem_margem :: "clock \<Rightarrow> date \<Rightarrow> int \<Rightarrow> bool" where
  "passado_ou_sem_margem rel data_atual slot =
     (data_atual = hoje rel \<and>
      data_atual * 86400 + slot * 60 \<le> hoje rel * 86400 + agora_seg rel + 3600)"

text \<open>
  The \<open>while slot_datetime < fim_datetime\<close> loop of one row on one date. \<open>slot\<close> and \<open>fim\<close>
  are minutes since midnight of \<open>data_atual\<close>: both datetimes are built on that date and the
  loop stops before \<open>fim\<close>, so the date of \<open>slot_datetime\<close> never changes.
\<close>

function slots_do_dia :: "db \<Rightarrow> clock \<Rightarrow> row \<Rightarrow> date \<Rightarrow> int \<Rightarrow> int \<Rightarrow> horario list \<Rightarrow> horario list" where
  "slots_do_dia bd rel r data_atual fim slot horarios =
     (if slot < fim then
        if length horarios \<ge> 5 then horarios
        else if passado_ou_sem_margem rel data_atual slot
        then slots_do_dia bd rel r data_atual fim (slot + duracao_consulta r) horarios
        else if verificar_disponibilidade_slot_simples bd (row_medico_id r) data_atual
                  (strftime_HM slot)
        then slots_do_dia bd rel r data_atual fim (slot + duracao_consulta r)
               (horarios @ [horario_info bd r data_atual slot])
        else slots_do_dia bd rel r data_atual fim (slot + duracao_consulta r) horarios
      else horarios)"
  by pat_completeness auto
termination
  by (relation "measure (\<lambda>(bd, rel, r, data_atual, fim, slot, horarios). nat (fim - slot))")
     (auto simp: duracao_consulta_def split: option.splits)

declare slots_do_dia.simps [simp del]

text \<open>
  The \<open>for row in rows\<close> loop of one date. \<open>None\<close> is an exception leaving the loop: the
  only statement of the body that can raise on this store is \<open>strptime\<close> on the two time
  columns. A \<open>continue\<close> goes to the next row without the \<open>len(horarios) >= 5\<close> test.
\<close>

function rows_do_dia :: "db \<Rightarrow> clock \<Rightarrow> date \<Rightarrow> row list \<Rightarrow> horario list \<Rightarrow> horario list option" where
  "rows_do_dia bd rel data_atual [] horarios = Some horarios"
| "rows_do_dia bd rel data_atual (r # rows) horarios =
     (if hdisp_dia_semana (snd r) \<noteq> weekday data_atual
      then rows_do_dia bd rel data_atual rows horarios
      else if (case Medico_find_by_id bd (row_medico_id r) of
                 Some medico \<Rightarrow> \<not> agenda_aberta medico data_atual
               | None \<Rightarrow> False)
      then rows_do_dia bd rel data_atual rows horarios
      else
        case strptime_HM (hdisp_hora_inicio (snd r)) of
          None \<Rightarrow> None
        | Some hora_inicio \<Rightarrow>
            (case strptime_HM (hdisp_hora_fim (snd r)) of
               None \<Rightarrow> None
             | Some hora_fim \<Rightarrow>
                 let horarios' = slots_do_dia bd rel r data_atual hora_fim hora_inicio horarios
                 in if length horarios' \<ge> 5 then Some horarios'
                    else rows_do_dia bd rel data_atual rows horarios'))"
  by pat_completeness auto
termination
  by (relation "measure (\<lambda>(bd, rel, data_atual, rows, horarios). length rows)") auto

text \<open>
  The \<open>for dia in range(50)\<close> loop, over the offsets still to visit. Saturday (5) and
  Sunday (6) are skipped by \<open>continue\<close>.
\<close>

function dias_loop :: "db \<Rightarrow> clock \<Rightarrow> row list \<Rightarrow> int list \<Rightarrow> horario list \<Rightarrow> horario list option" where
  "dias_loop bd rel rows [] horarios = Some horarios"
| "dias_loop bd rel rows (dia # dias) horarios =
     (let data_atual = hoje rel + dia
      in if weekday data_atual \<ge> 5 then dias_loop bd rel rows dias horarios
         else
           case rows_do_dia bd rel data_atual rows horarios of
             None \<Rightarrow> None
           | Some horarios' \<Rightarrow>
               if length horarios' \<ge> 5 then Some horarios'
               else dias_loop bd rel rows dias horarios')"
  by pat_completeness auto
termination
  by (relation "measure (\<lambda>(bd, rel, rows, dias, horarios). length dias)") auto

text \<open>
  The key of the final \<open>sorted\<close>: Thursday (weekday 3) first, then the timestamp. Both
  \<open>sorted\<close> and \<^const>\<open>sort_key\<close> are stable, so they return the same list.
\<close>

definition sort_key_horario :: "horario \<Rightarrow> nat \<times> int" where
  "sort_key_horario h =
     (if weekday (h_data h) = 3 then (0, h_timestamp h) else (1, h_timestamp h))"

text \<open>\<open>_gerar_horarios_disponiveis(rows)\<close>: an exception in the body gives the empty list.\<close>

definition gerar_horarios_disponiveis :: "db \<Rightarrow> clock \<Rightarrow> row list \<Rightarrow> horario list" where
  "gerar_horarios_disponiveis bd rel rows =
     (case dias_loop bd rel rows (map int [0..<50]) [] of
        None \<Rightarrow> []
      | Some horarios \<Rightarrow> take 5 (sort_key sort_key_horario horarios))"

text \<open>
  The two tests a slot passes before it is appended: it is not a slot of today inside the
  one-hour margin, and the existence check answers that it is available.
\<close>

definition slot_aceito :: "db \<Rightarrow> clock \<Rightarrow> row \<Rightarrow> date \<Rightarrow> int \<Rightarrow> bool" where
  "slot_aceito bd rel r data_atual slot =
     (\<not> passado_ou_sem_margem rel data_atual slot \<and>
      verificar_disponibilidade_slot_simples bd (row_medico_id r) data_atual (strftime_HM slot))"

section \<open>Choice Interpreter\<close>

text \<open>
  \<open>re.match(r'^(\d+)$', s)\<close> on a stripped text: the text is one or more digits.
  \<open>int\<close> of such a text is its decimal value.
\<close>

definition numero_match :: "string \<Rightarrow> bool" where
  "numero_match s = (s \<noteq> [] \<and> list_all is_digit s)"

definition int_digits :: "string \<Rightarrow> nat" where
  "int_digits s = foldl (\<lambda>a c. 10 * a + digit_val c) 0 s"

text \<open>
  The ways \<open>(\d{1,2})\<close> matches at the start of a text, in the order the regex engine
  tries them (two digits, then one), each with the text left after it.
\<close>

fun match_d12 :: "string \<Rightarrow> (string \<times> string) list" where
  "match_d12 (a # b # rest) =
     (if is_digit a \<and> is_digit b then [([a, b], rest), ([a], b # rest)]
      else if is_digit a then [([a], b # rest)] else [])"
| "match_d12 [a] = (if is_digit a then [([a], [])] else [])"
| "match_d12 [] = []"

text \<open>\<open>re.search(p, s)\<close>: the match at the leftmost position where \<open>p\<close> matches.\<close>

fun re_search :: "(string \<Rightarrow> 'a option) \<Rightarrow> string \<Rightarrow> 'a option" where
  "re_search at [] = at []"
| "re_search at (c # cs) =
     (case at (c # cs) of Some m \<Rightarrow> Some m | None \<Rightarrow> re_search at cs)"

definition first_some :: "'a option list \<Rightarrow> 'a option" where
  "first_some xs = (case filter (\<lambda>x. x \<noteq> None) xs of [] \<Rightarrow> None | x # _ \<Rightarrow> x)"

text \<open>
  The date patterns \<open>(\d{1,2})SEP(\d{1,2})\<close> with separator \<open>/\<close>, \<open>-\<close> or \<open>.\<close>, matched at
  the start of a text; the result is the pair of groups.
\<close>

definition data_pattern_at :: "char \<Rightarrow> string \<Rightarrow> (string \<times> string) option" where
  "data_pattern_at sep s =
     first_some
       [case rest of
          c # rest' \<Rightarrow>
            (if c = sep then (case match_d12 rest' of [] \<Rightarrow> None | (g2, _) # _ \<Rightarrow> Some (g1, g2))
             else None)
        | [] \<Rightarrow> None.
        (g1, rest) \<leftarrow> match_d12 s]"

text \<open>
  The hour patterns \<open>(\d{1,2}):(\d{2})\<close>, \<open>(\d{1,2})h(\d{2})?\<close> and \<open>(\d{1,2}) horas?\<close>
  at the start of a text. The result is group 1 and, where the pattern has one, group 2.
\<close>

definition two_digits :: "string \<Rightarrow> string option" where
  "two_digits s =
     (case s of a # b # _ \<Rightarrow> (if is_digit a \<and> is_digit b then Some [a, b] else None)
      | _ \<Rightarrow> None)"

definition hora_pattern1_at :: "string \<Rightarrow> (string \<times> string option) option" where
  "hora_pattern1_at s =
     first_some
       [case rest of
          c # rest' \<Rightarrow>
            (if c = CHR '':'' then (case two_digits rest' of None \<Rightarrow> None
                                                       | Some g2 \<Rightarrow> Some (g1, Some g2))
             else None)
        | [] \<Rightarrow> None.
        (g1, rest) \<leftarrow> match_d12 s]"

definition hora_pattern2_at :: "string \<Rightarrow> (string \<times> string option) option" where
  "hora_pattern2_at s =
     first_some
       [case rest of
          c # rest' \<Rightarrow> (if c = CHR ''h'' then Some (g1, two_digits rest') else None)
        | [] \<Rightarrow> None.
        (g1, rest) \<leftarrow> match_d12 s]"

definition hora_pattern3_at :: "string \<Rightarrow> (string \<times> string option) option" where
  "hora_pattern3_at s =
     first_some
       [if starts_with rest '' hora'' then Some (g1, None) else None.
        (g1, rest) \<leftarrow> match_d12 s]"

text \<open>
  The two extraction loops of \<open>_interpretar_escolha_horario\<close>. The first pattern that is
  found anywhere in the message decides; \<open>ano\<close> is \<open>datetime.now().year\<close>.
\<close>

definition data_encontrada :: "clock \<Rightarrow> string \<Rightarrow> string option" where
  "data_encontrada rel mensagem =
     (case first_some [re_search (data_pattern_at sep) mensagem. sep \<leftarrow> ''/-.''] of
        None \<Rightarrow> None
      | Some (dia, mes) \<Rightarrow>
          let ano = fst (ord2ymd (nat (hoje rel)))
          in Some (fmt02 (int_digits dia) @ ''/'' @ fmt02 (int_digits mes) @ ''/'' @
                   dec_digits ano))"

definition hora_encontrada :: "string \<Rightarrow> string option" where
  "hora_encontrada mensagem =
     (case re_search hora_pattern1_at mensagem of
        Some (h, m) \<Rightarrow>
          Some (fmt02 (int_digits h) @ '':'' @
                fmt02 (case m of Some mm \<Rightarrow> int_digits mm | None \<Rightarrow> 0))
      | None \<Rightarrow>
          (case re_search hora_pattern2_at mensagem of
             Some (h, m) \<Rightarrow>
               Some (fmt02 (int_digits h) @ '':'' @
                     fmt02 (case m of Some mm \<Rightarrow> int_digits mm | None \<Rightarrow> 0))
           | None \<Rightarrow>
               (case re_search hora_pattern3_at mensagem of
                  Some (h, _) \<Rightarrow> Some (fmt02 (int_digits h) @ '':00'')
                | None \<Rightarrow> None)))"

text \<open>
  \<open>_interpretar_escolha_horario(mensagem, horarios_disponiveis)\<close>; \<open>None\<close> is Python's
  \<open>None\<close>.
\<close>

definition interpretar_escolha_horario :: "clock \<Rightarrow> string \<Rightarrow> horario list \<Rightarrow> horario option" where
  "interpretar_escolha_horario rel mensagem horarios_disponiveis =
     (let mensagem_clean = strip mensagem
      in if numero_match mensagem_clean then
           let indice = int (int_digits mensagem_clean) - 1
           in if 0 \<le> indice \<and> indice < int (length horarios_disponiveis)
              then Some (horarios_disponiveis ! nat indice)
              else None
         else
           let data = data_encontrada rel mensagem;
               hora = hora_encontrada mensagem
           in List.find
                (\<lambda>horario.
                   (case data of None \<Rightarrow> True
                    | Some d \<Rightarrow> starts_with d (take 5 (h_data_formatada horario))) \<and>
                   (case hora of None \<Rightarrow> True | Some h \<Rightarrow> h = h_hora horario))
                horarios_disponiveis)"

section \<open>Conversation, draft and responses\<close>

text \<open>
  The draft (\<open>dados_temporarios\<close>) is a JSON object that \<open>get_dados\<close> parses and \<open>set_dados\<close>
  writes back; here it is the dictionary itself, an association list in insertion order.
  Its values are the JSON values the chatbot stores; a date text \<open>YYYY-MM-DD\<close> is the date.
\<close>

datatype dval = DNone | DInt int | DStr string | DBool bool | DDate date | DIds "int list"

type_synonym dados = "(string \<times> dval) list"

fun dict_set :: "string \<Rightarrow> dval \<Rightarrow> dados \<Rightarrow> dados" where
  "dict_set k v [] = [(k, v)]"
| "dict_set k v ((k', v') # d) = (if k' = k then (k, v) # d else (k', v') # dict_set k v d)"

definition dict_update :: "dados \<Rightarrow> dados \<Rightarrow> dados" where
  "dict_update d novos = foldl (\<lambda>acc (k, v). dict_set k v acc) d novos"

text \<open>Python truth value of \<open>d.get(k)\<close>.\<close>

fun truthy :: "dval option \<Rightarrow> bool" where
  "truthy None = False"
| "truthy (Some DNone) = False"
| "truthy (Some (DInt i)) = (i \<noteq> 0)"
| "truthy (Some (DStr s)) = (s \<noteq> [])"
| "truthy (Some (DBool b)) = b"
| "truthy (Some (DDate d)) = True"
| "truthy (Some (DIds l)) = (l \<noteq> [])"

text \<open>
  What a draft value is when it is bound to a column of an INSERT: a value of another
  kind than the column holds is \<open>None\<close>, which the constraints of the table reject like
  NULL.
\<close>

fun as_int :: "dval option \<Rightarrow> int option" where
  "as_int (Some (DInt i)) = Some i"
| "as_int _ = None"

fun as_date :: "dval option \<Rightarrow> date option" where
  "as_date (Some (DDate d)) = Some d"
| "as_date _ = None"

fun as_str :: "dval option \<Rightarrow> string option" where
  "as_str (Some (DStr s)) = Some s"
| "as_str _ = None"

text \<open>\<open>str(i)\<close> for an integer, as an f-string formats it.\<close>

definition str_int :: "int \<Rightarrow> string" where
  "str_int i = (if i < 0 then CHR ''-'' # dec_digits (nat (- i)) else dec_digits (nat i))"

record conversa =
  cv_estado :: string
  cv_dados :: dados
  cv_paciente_id :: "int option"

text \<open>
  A response dictionary without its \<open>message\<close> text: the texts are fixed sentences with the
  names and dates filled in and no branch of the chatbot reads them.
\<close>

record resposta =
  r_success :: bool
  r_tipo :: string
  r_proximo_estado :: string
  r_horarios :: "horario list option"
  r_agendamentos :: "agendamento list option"
  r_agendamento_id :: "int option"

definition resp :: "bool \<Rightarrow> string \<Rightarrow> string \<Rightarrow> resposta" where
  "resp s t p =
     \<lparr> r_success = s, r_tipo = t, r_proximo_estado = p, r_horarios = None,
       r_agendamentos = None, r_agendamento_id = None \<rparr>"

text \<open>\<open>_resposta_erro(mensagem)\<close>.\<close>

definition resposta_erro :: resposta where
  "resposta_erro = resp False ''erro'' ''inicio''"

text \<open>
  An exception is a value. A handler mutates the conversation and the database in place,
  so what it did before raising stays done: the result of a handler is the outcome
  together with the conversation and the database as it left them.
\<close>

datatype erro = KeyError string | IntegrityError string | TypeError | ValueError

type_synonym 'a resultado = "(erro + 'a) \<times> conversa \<times> db"

section \<open>Writes to the database\<close>

text \<open>
  \<open>Agendamento.create(**kwargs)\<close>: the INSERT, then \<open>find_by_id\<close> of the new row. The
  columns \<open>paciente_id\<close>, \<open>medico_id\<close>, \<open>especialidade_id\<close>, \<open>local_id\<close>, \<open>data\<close> and \<open>hora\<close>
  are NOT NULL and the four ids are foreign keys, checked because every connection runs
  \<open>PRAGMA foreign_keys = ON\<close>. A column that is not given takes its default.
\<close>

record agendamento_kwargs =
  kw_paciente_id :: "int option"
  kw_medico_id :: "int option"
  kw_especialidade_id :: "int option"
  kw_local_id :: "int option"
  kw_data :: "date option"
  kw_hora :: "string option"
  kw_observacoes :: string
  kw_status :: "string option"
  kw_anexo_nome :: string
  kw_anexo_path :: string

definition Agendamento_create :: "db \<Rightarrow> agendamento_kwargs \<Rightarrow> erro + (agendamento \<times> db)" where
  "Agendamento_create bd kw =
     (case (kw_paciente_id kw, kw_medico_id kw, kw_especialidade_id kw, kw_local_id kw,
            kw_data kw, kw_hora kw) of
        (Some p, Some m, Some e, Some l, Some d, Some h) \<Rightarrow>
          if Paciente_find_by_id bd p = None \<or> Medico_find_by_id bd m = None \<or>
             Especialidade_find_by_id bd e = None \<or> Local_find_by_id bd l = None
          then Inl (IntegrityError ''FOREIGN KEY constraint failed'')
          else
            let novo = \<lparr> ag_id = db_seq_agendamentos bd, ag_paciente_id = p, ag_medico_id = m,
                         ag_especialidade_id = e, ag_local_id = l, ag_data = d, ag_hora = h,
                         ag_observacoes = kw_observacoes kw,
                         ag_status = (case kw_status kw of None \<Rightarrow> ''agendado'' | Some s \<Rightarrow> s),
                         ag_anexo_nome = kw_anexo_nome kw, ag_anexo_path = kw_anexo_path kw,
                         ag_motivo_cancelamento = [] \<rparr>
            in Inr (novo, bd\<lparr> db_agendamentos := db_agendamentos bd @ [novo],
                              db_seq_agendamentos := db_seq_agendamentos bd + 1 \<rparr>)
      | _ \<Rightarrow> Inl (IntegrityError ''NOT NULL constraint failed''))"

text \<open>\<open>agendamento.cancelar(motivo)\<close>: the fields are set and \<open>save()\<close> updates the row.\<close>

definition Agendamento_cancelar :: "db \<Rightarrow> agendamento \<Rightarrow> string \<Rightarrow> db" where
  "Agendamento_cancelar bd a motivo =
     bd\<lparr> db_agendamentos :=
           map (\<lambda>x. if ag_id x = ag_id a
                     then a\<lparr> ag_status := ''cancelado'', ag_motivo_cancelamento := motivo \<rparr>
                     else x)
               (db_agendamentos bd) \<rparr>"

text \<open>\<open>paciente.get_agendamentos()\<close>.\<close>

definition get_agendamentos :: "db \<Rightarrow> paciente \<Rightarrow> agendamento list" where
  "get_agendamentos bd p = filter (\<lambda>a. ag_paciente_id a = pac_id p) (db_agendamentos bd)"

definition Local_find_active :: "db \<Rightarrow> local_atendimento list" where
  "Local_find_active bd = filter loc_ativo (db_locais bd)"

definition Especialidade_find_active :: "db \<Rightarrow> especialidade list" where
  "Especialidade_find_active bd = filter esp_ativo (db_especialidades bd)"

definition Medico_find_active :: "db \<Rightarrow> medico list" where
  "Medico_find_active bd = filter med_ativo (db_medicos bd)"

section \<open>Dialogue State Machine\<close>

text \<open>
  What a call of \<open>processar_mensagem\<close> reads besides the message, the conversation and the
  database: the clock, and the answer of the remote classifier. \<open>am_ia mensagem\<close> is
  \<open>None\<close> when \<open>_initialize_genai\<close> or \<open>generate_content\<close> raises and \<open>Some\<close> of
  \<open>response.text\<close> otherwise, the empty text standing for a missing one.
\<close>

record ambiente =
  am_relogio :: clock
  am_ia :: "string \<Rightarrow> string option"

subsection \<open>Keyword tests\<close>

definition saudacoes :: "string list" where
  "saudacoes =
     [''oi'', ''ol'' @ [CHR 0xE1], ''ola'', ''hey'', ''hello'', ''bom dia'', ''boa tarde'',
      ''boa noite'']"

definition eh_saudacao :: "string \<Rightarrow> bool" where
  "eh_saudacao mensagem = any_in saudacoes (lower mensagem)"

definition palavras_cancelamento :: "string list" where
  "palavras_cancelamento =
     [''cancelar'', ''desmarcar'', ''remover consulta'', ''cancelo'', ''cancelamento'']"

definition eh_cancelamento :: "string \<Rightarrow> bool" where
  "eh_cancelamento mensagem = any_in palavras_cancelamento (lower mensagem)"

text \<open>\<open>_extrair_cpf\<close>: the digits of the message, when there are exactly 11 of them.\<close>

definition extrair_cpf :: "string \<Rightarrow> string option" where
  "extrair_cpf mensagem =
     (let cpf = filter is_digit mensagem in if length cpf = 11 then Some cpf else None)"

subsection \<open>Intent classifier\<close>

definition detectar_tipo_mensagem :: "ambiente \<Rightarrow> string \<Rightarrow> string" where
  "detectar_tipo_mensagem amb mensagem =
     (let mensagem_lower = strip (lower mensagem)
      in if any_in [''cancelar'', ''desmarcar'', ''remover consulta'', ''cancelo''] mensagem_lower
         then ''cancelamento''
         else if any_in [''meus agendamentos'', ''minhas consultas'', ''consultar agendamento'',
                         ''ver consultas''] mensagem_lower
         then ''consulta''
         else if any_in [''telefone'', ''endere'' @ [CHR 0xE7] @ ''o'', ''onde fica'',
                         ''hor'' @ [CHR 0xE1] @ ''rio funcionamento'',
                         ''localiza'' @ [CHR 0xE7, CHR 0xE3] @ ''o''] mensagem_lower
         then ''informacao''
         else if any_in [''clima'', ''tempo'', ''futebol'', ''pol'' @ [CHR 0xED] @ ''tica'',
                         ''receita culin'' @ [CHR 0xE1] @ ''ria''] mensagem_lower
         then ''fora_escopo''
         else
           case am_ia amb mensagem of
             None \<Rightarrow> ''agendamento''
           | Some text \<Rightarrow>
               let resultado = (if text = [] then ''agendamento'' else lower (strip text))
               in if resultado \<in> set [''agendamento'', ''cancelamento'', ''consulta'',
                                       ''informacao'', ''fora_escopo'']
                  then resultado else ''agendamento'')"

subsection \<open>State \<open>inicio\<close>\<close>

definition processar_inicio :: "ambiente \<Rightarrow> string \<Rightarrow> conversa \<Rightarrow> db \<Rightarrow> resposta resultado" where
  "processar_inicio amb mensagem conversa bd =
     (let tipo = detectar_tipo_mensagem amb mensagem
      in if tipo = ''cancelamento''
         then (Inr (resp True ''texto'' ''cancelamento''),
               conversa\<lparr> cv_estado := ''cancelamento'' \<rparr>, bd)
         else if tipo = ''consulta''
         then (Inr (resp True ''texto'' ''consulta_agendamentos''),
               conversa\<lparr> cv_estado := ''consulta_agendamentos'' \<rparr>, bd)
         else if tipo = ''informacao''
         then (Inr (resp True ''info'' ''inicio''), conversa, bd)
         else if tipo = ''fora_escopo''
         then (Inr (resp True ''orientacao'' ''inicio''), conversa, bd)
         else (Inr (resp True ''texto'' ''aguardando_cpf''),
               conversa\<lparr> cv_estado := ''aguardando_cpf'' \<rparr>, bd))"

subsection \<open>National ID, cancellation and lookup\<close>

definition processar_cancelamento_cpf_valido :: "conversa \<Rightarrow> paciente \<Rightarrow> db \<Rightarrow> resposta resultado" where
  "processar_cancelamento_cpf_valido conversa paciente bd =
     (let agendamentos = filter (\<lambda>a. ag_status a = ''agendado'') (get_agendamentos bd paciente)
      in if agendamentos = []
         then (Inr (resp False ''texto'' ''inicio''), conversa, bd)
         else
           (Inr ((resp True ''cancelamento'' ''cancelamento'')
                   \<lparr> r_agendamentos := Some agendamentos \<rparr>),
            conversa\<lparr> cv_dados := [(''agendamentos_para_cancelar'',
                                     DIds (map ag_id agendamentos))] \<rparr>,
            bd))"

definition processar_consulta_agendamentos_cpf_valido ::
  "conversa \<Rightarrow> paciente \<Rightarrow> db \<Rightarrow> resposta resultado" where
  "processar_consulta_agendamentos_cpf_valido conversa paciente bd =
     (let agendamentos = get_agendamentos bd paciente
      in if agendamentos = []
         then (Inr (resp True ''texto'' ''inicio''), conversa, bd)
         else
           (Inr ((resp True ''consulta'' ''inicio'') \<lparr> r_agendamentos := Some agendamentos \<rparr>),
            conversa\<lparr> cv_estado := ''finalizado'', cv_dados := [] \<rparr>,
            bd))"

definition processar_cpf :: "string \<Rightarrow> conversa \<Rightarrow> db \<Rightarrow> resposta resultado" where
  "processar_cpf mensagem conversa bd =
     (case extrair_cpf mensagem of
        None \<Rightarrow> (Inr (resp False ''texto'' ''aguardando_cpf''), conversa, bd)
      | Some cpf \<Rightarrow>
          let dados_temp = cv_dados conversa;
              acao_desejada = (case map_of dados_temp ''acao_desejada'' of
                                 None \<Rightarrow> DStr ''agendar'' | Some v \<Rightarrow> v)
          in case Paciente_find_by_cpf bd cpf of
               Some paciente \<Rightarrow>
                 let conversa1 = conversa\<lparr> cv_paciente_id := Some (pac_id paciente),
                                            cv_dados := [(''cpf'', DStr cpf),
                                                         (''paciente_id'', DInt (pac_id paciente)),
                                                         (''acao_desejada'', acao_desejada)] \<rparr>;
                     mensagem_anterior =
                       lower (case as_str (map_of dados_temp ''mensagem_inicial'') of
                                None \<Rightarrow> [] | Some s \<Rightarrow> s)
                 in if str_in ''cancelar'' mensagem_anterior \<or> cv_estado conversa1 = ''cancelamento''
                    then processar_cancelamento_cpf_valido conversa1 paciente bd
                    else if str_in ''consultar'' mensagem_anterior \<or>
                            cv_estado conversa1 = ''consulta_agendamentos''
                    then processar_consulta_agendamentos_cpf_valido conversa1 paciente bd
                    else (Inr (resp True ''locais'' ''local''),
                          conversa1\<lparr> cv_estado := ''local'' \<rparr>, bd)
             | None \<Rightarrow>
                 if cv_estado conversa \<in> set [''cancelamento'', ''consulta_agendamentos'']
                 then (Inr (resp False ''texto'' ''inicio''), conversa, bd)
                 else (Inr (resp True ''texto'' ''cadastro''),
                       conversa\<lparr> cv_estado := ''cadastro'',
                                 cv_dados := [(''cpf'', DStr cpf),
                                              (''etapa_cadastro'', DStr ''nome'')] \<rparr>,
                       bd))"

text \<open>
  \<open>int(s)\<close> for a text: surrounding whitespace, an optional sign, then digits, where single
  underscores may stand between digits. \<open>None\<close> is ValueError.
\<close>

fun sem_sublinhado_duplo :: "string \<Rightarrow> bool" where
  "sem_sublinhado_duplo (a # b # s) =
     (\<not> (a = CHR ''_'' \<and> b = CHR ''_'') \<and> sem_sublinhado_duplo (b # s))"
| "sem_sublinhado_duplo s = True"

definition py_int :: "string \<Rightarrow> int option" where
  "py_int s =
     (let t = strip s;
          negativo = (t \<noteq> [] \<and> hd t = CHR ''-'');
          corpo = (if t \<noteq> [] \<and> (hd t = CHR ''-'' \<or> hd t = CHR ''+'') then tl t else t)
      in if corpo \<noteq> [] \<and> is_digit (hd corpo) \<and> is_digit (last corpo) \<and>
            list_all (\<lambda>c. is_digit c \<or> c = CHR ''_'') corpo \<and> sem_sublinhado_duplo corpo
         then Some ((if negativo then - 1 else 1) * int (int_digits (filter is_digit corpo)))
         else None)"

text \<open>
  What \<open>dados['agendamentos_para_cancelar']\<close> is to \<open>len\<close> and to indexing: a list of ids, or
  a text (a date in the draft is its text \<open>%Y-%m-%d\<close>), whose items are its characters.
  Any other value has no \<open>len\<close>: TypeError, here \<open>None\<close>. An item is given as the id that
  \<open>WHERE id = ?\<close> of \<open>Agendamento.find_by_id\<close> looks for: the integer itself; for a
  character that is a digit its value, since SQLite converts a text that is a number before
  comparing it with the integer key; for any other character none.
\<close>

definition id_do_caractere :: "char \<Rightarrow> int option" where
  "id_do_caractere c = (if is_digit c then Some (int (digit_val c)) else None)"

definition strftime_Ymd :: "date \<Rightarrow> string" where
  "strftime_Ymd d =
     (case ord2ymd (nat d) of (y, m, dd) \<Rightarrow> fmt04 y @ ''-'' @ fmt02 m @ ''-'' @ fmt02 dd)"

definition itens_para_cancelar :: "dval \<Rightarrow> int option list option" where
  "itens_para_cancelar v =
     (case v of
        DIds ids \<Rightarrow> Some (map Some ids)
      | DStr s \<Rightarrow> Some (map id_do_caractere s)
      | DDate d \<Rightarrow> Some (map id_do_caractere (strftime_Ymd d))
      | _ \<Rightarrow> None)"

definition processar_cancelamento :: "string \<Rightarrow> conversa \<Rightarrow> db \<Rightarrow> resposta resultado" where
  "processar_cancelamento mensagem conversa bd =
     (let dados = cv_dados conversa
      in case map_of dados ''agendamentos_para_cancelar'' of
           Some v \<Rightarrow>
             (case py_int mensagem of
                None \<Rightarrow> (Inr (resp False ''cancelamento'' ''cancelamento''), conversa, bd)
              | Some numero \<Rightarrow>
                  (case itens_para_cancelar v of
                     Some agendamentos_ids \<Rightarrow>
                       if 1 \<le> numero \<and> numero \<le> int (length agendamentos_ids)
                       then
                         (case Option.bind (agendamentos_ids ! nat (numero - 1))
                                 (Agendamento_find_by_id bd) of
                            Some agendamento \<Rightarrow>
                              if ag_status agendamento = ''agendado''
                              then (Inr (resp True ''sucesso'' ''finalizado''),
                                    conversa\<lparr> cv_estado := ''finalizado'', cv_dados := [] \<rparr>,
                                    Agendamento_cancelar bd agendamento
                                      ''Cancelado pelo paciente via chatbot'')
                              else (Inr (resp False ''cancelamento'' ''cancelamento''),
                                    conversa, bd)
                          | None \<Rightarrow>
                              (Inr (resp False ''cancelamento'' ''cancelamento''), conversa, bd))
                       else (Inr (resp False ''cancelamento'' ''cancelamento''), conversa, bd)
                   | None \<Rightarrow> (Inl TypeError, conversa, bd)))
         | None \<Rightarrow> processar_cpf mensagem conversa bd)"

subsection \<open>Location and specialty\<close>

definition processar_local :: "string \<Rightarrow> conversa \<Rightarrow> db \<Rightarrow> resposta resultado" where
  "processar_local mensagem conversa bd =
     (let locais = Local_find_active bd;
          mensagem_lower = strip (lower mensagem);
          local_escolhido =
            List.find
              (\<lambda>l. str_in (lower (loc_nome l)) mensagem_lower \<or>
                    (case loc_cidade l of
                       None \<Rightarrow> False
                     | Some c \<Rightarrow> c \<noteq> [] \<and> str_in (lower c) mensagem_lower) \<or>
                    str_in mensagem_lower (lower (loc_nome l)) \<or>
                    (case loc_cidade l of
                       None \<Rightarrow> False
                     | Some c \<Rightarrow> c \<noteq> [] \<and> str_in mensagem_lower (lower c)))
              locais
      in case local_escolhido of
           Some l \<Rightarrow>
             (Inr (resp True ''especialidades'' ''especialidade''),
              conversa\<lparr> cv_dados := dict_set ''local_nome'' (DStr (loc_nome l))
                                        (dict_set ''local_id'' (DInt (loc_id l)) (cv_dados conversa)),
                        cv_estado := ''especialidade'' \<rparr>,
              bd)
         | None \<Rightarrow> (Inr (resp False ''locais'' ''local''), conversa, bd))"

text \<open>
  The join \<open>SELECT m.*, h.* FROM medicos m JOIN horarios_disponiveis h ON m.id = h.medico_id
  WHERE m.especialidade_id = ? AND h.local_id = ? AND m.ativo = 1 AND h.ativo = 1\<close>. The
  query has no \<open>ORDER BY\<close> and the schema no index besides the primary keys, so SQLite
  scans the availability rows and looks the doctor of each up by its key: the rows come in
  the order of the availability table. A draft value that is not an integer matches no row.
\<close>

definition query_medicos_horarios :: "db \<Rightarrow> dval option \<Rightarrow> dval option \<Rightarrow> row list" where
  "query_medicos_horarios bd especialidade_id local_id =
     (case (as_int especialidade_id, as_int local_id) of
        (Some e, Some l) \<Rightarrow>
          [(m, h). h \<leftarrow> db_horarios_disponiveis bd, m \<leftarrow> db_medicos bd,
                   med_id m = hdisp_medico_id h, med_especialidade_id m = e,
                   hdisp_local_id h = l, med_ativo m, hdisp_ativo h]
      | _ \<Rightarrow> [])"

subsection \<open>State \<open>horarios\<close>\<close>

definition processar_horarios ::
  "ambiente \<Rightarrow> string \<Rightarrow> conversa \<Rightarrow> dados \<Rightarrow> db \<Rightarrow> resposta resultado" where
  "processar_horarios amb mensagem conversa dados bd =
     (let local_id = map_of dados ''local_id'';
          especialidade_id = map_of dados ''especialidade_id''
      in if \<not> truthy local_id \<or> \<not> truthy especialidade_id
         then (Inr resposta_erro, conversa\<lparr> cv_estado := ''inicio'', cv_dados := [] \<rparr>, bd)
         else
           let rows = query_medicos_horarios bd especialidade_id local_id
           in if rows = []
              then (Inr (resp False ''especialidades'' ''especialidade''), conversa, bd)
              else
                let horarios_disponiveis = gerar_horarios_disponiveis bd (am_relogio amb) rows
                in if horarios_disponiveis = []
                   then (Inr (resp False ''especialidades'' ''especialidade''), conversa, bd)
                   else if strip mensagem = []
                   then (Inr ((resp True ''horarios'' ''horarios'')
                                \<lparr> r_horarios := Some horarios_disponiveis \<rparr>),
                         conversa, bd)
                   else
                     case interpretar_escolha_horario (am_relogio amb) mensagem
                            horarios_disponiveis of
                       None \<Rightarrow>
                         (Inr ((resp True ''horarios'' ''horarios'')
                                 \<lparr> r_horarios := Some horarios_disponiveis \<rparr>),
                          conversa, bd)
                     | Some escolha \<Rightarrow>
                         let dados1 =
                               dict_update dados
                                 [(''medico_id'', DInt (h_medico_id escolha)),
                                  (''medico_nome'', DStr (h_medico_nome escolha)),
                                  (''especialidade_nome'',
                                     (case map_of dados ''especialidade_nome'' of
                                        None \<Rightarrow> DStr ''Especialidade'' | Some v \<Rightarrow> v)),
                                  (''data_agendamento'', DDate (h_data escolha)),
                                  (''hora_agendamento'', DStr (h_hora escolha)),
                                  (''data_formatada'', DStr (h_data_formatada escolha)),
                                  (''hora_formatada'', DStr (h_hora_formatada escolha))];
                             conversa1 = conversa\<lparr> cv_dados := dados1 \<rparr>;
                             requer_anexo =
                               (case as_int especialidade_id of
                                  None \<Rightarrow> False
                                | Some e \<Rightarrow>
                                    (case Especialidade_find_by_id bd e of
                                       None \<Rightarrow> False
                                     | Some esp \<Rightarrow> esp_requer_anexo esp))
                         in if requer_anexo
                            then
                              case Agendamento_create bd
                                     \<lparr> kw_paciente_id = cv_paciente_id conversa1,
                                       kw_medico_id = Some (h_medico_id escolha),
                                       kw_especialidade_id = as_int especialidade_id,
                                       kw_local_id = Some (h_local_id escolha),
                                       kw_data = Some (h_data escolha),
                                       kw_hora = Some (h_hora escolha),
                                       kw_observacoes = [],
                                       kw_status = Some ''pendente_anexo'',
                                       kw_anexo_nome = [],
                                       kw_anexo_path = [] \<rparr> of
                                Inl e \<Rightarrow> (Inl e, conversa1, bd)
                              | Inr (temp_agendamento, bd1) \<Rightarrow>
                                  (Inr (resp True ''solicitacao_anexo'' ''solicitacao_anexo''),
                                   conversa1\<lparr> cv_dados :=
                                                dict_set ''agendamento_temp_id''
                                                  (DInt (ag_id temp_agendamento)) dados1,
                                              cv_estado := ''solicitacao_anexo'' \<rparr>,
                                   bd1)
                            else (Inr (resp True ''confirmacao'' ''confirmacao''),
                                  conversa1\<lparr> cv_estado := ''confirmacao'' \<rparr>, bd))"

text \<open>
  The specialties of \<open>_processar_especialidade\<close>. With a location in the draft, \<open>SELECT
  DISTINCT e.* FROM especialidades e JOIN medicos m ON e.id = m.especialidade_id JOIN
  horarios_disponiveis h ON m.id = h.medico_id WHERE h.local_id = ? AND e.ativo = 1 AND
  m.ativo = 1 AND h.ativo = 1\<close>: the active specialties that have an active doctor with an
  active availability row at that location. As above the availability rows are scanned
  and the doctor and the specialty of each looked up by key, and \<open>DISTINCT\<close> keeps the
  first of equal rows (\<open>primeiros\<close>). Otherwise all active specialties.
\<close>

definition primeiros :: "'a list \<Rightarrow> 'a list" where
  "primeiros xs = rev (remdups (rev xs))"

definition especialidades_do_local :: "db \<Rightarrow> dval option \<Rightarrow> especialidade list" where
  "especialidades_do_local bd local_id =
     (if truthy local_id
      then primeiros
             [e. h \<leftarrow> db_horarios_disponiveis bd, m \<leftarrow> db_medicos bd,
                 e \<leftarrow> db_especialidades bd,
                 med_id m = hdisp_medico_id h, esp_id e = med_especialidade_id m,
                 Some (hdisp_local_id h) = as_int local_id,
                 esp_ativo e, med_ativo m, hdisp_ativo h]
      else Especialidade_find_active bd)"

definition mapeamento_sintomas :: "(string \<times> string) list" where
  "mapeamento_sintomas =
     [(''cora'' @ [CHR 0xE7, CHR 0xE3] @ ''o'', ''Cardiologia''),
      (''pele'', ''Dermatologia''),
      (''crian'' @ [CHR 0xE7] @ ''a'', ''Pediatria''),
      (''neuro'', ''NeuroPediatra''),
      (''neurologia'', ''NeuroPediatra''),
      (''neurologista'', ''NeuroPediatra''),
      (''neuropediatra'', ''NeuroPediatra''),
      (''pediatra'', ''NeuroPediatra''),
      (''avalia'' @ [CHR 0xE7, CHR 0xE3] @ ''o'', ''Avalia'' @ [CHR 0xE7, CHR 0xE3] @ ''o - terapia''),
      (''terapia'', ''Avalia'' @ [CHR 0xE7, CHR 0xE3] @ ''o - terapia''),
      (''avaliacao'', ''Avalia'' @ [CHR 0xE7, CHR 0xE3] @ ''o - terapia''),
      (''mulher'', ''Ginecologia''),
      (''osso'', ''Ortopedia''),
      (''mental'', ''Psiquiatria''),
      (''olho'', ''Oftalmologia'')]"

definition processar_especialidade ::
  "ambiente \<Rightarrow> string \<Rightarrow> conversa \<Rightarrow> db \<Rightarrow> resposta resultado" where
  "processar_especialidade amb mensagem conversa bd =
     (let dados = cv_dados conversa;
          especialidades = especialidades_do_local bd (map_of dados ''local_id'');
          mensagem_lower = strip (lower mensagem);
          por_nome = List.find (\<lambda>e. str_in (lower (esp_nome e)) mensagem_lower \<or>
                                     str_in mensagem_lower (lower (esp_nome e)))
                               especialidades;
          especialidade_escolhida =
            (case por_nome of
               Some e \<Rightarrow> Some e
             | None \<Rightarrow>
                 first_some
                   [if str_in palavra mensagem_lower
                    then List.find (\<lambda>e. str_in (lower especialidade_nome) (lower (esp_nome e)))
                                   especialidades
                    else None.
                    (palavra, especialidade_nome) \<leftarrow> mapeamento_sintomas])
      in case especialidade_escolhida of
           None \<Rightarrow> (Inr (resp False ''especialidades'' ''especialidade''), conversa, bd)
         | Some esp \<Rightarrow>
             let dados1 = dict_set ''especialidade_nome'' (DStr (esp_nome esp))
                            (dict_set ''especialidade_id'' (DInt (esp_id esp)) dados);
                 conversa1 = conversa\<lparr> cv_dados := dados1, cv_estado := ''horarios'' \<rparr>;
                 medicos_especialidade =
                   filter (\<lambda>m. med_especialidade_id m = esp_id esp) (Medico_find_active bd)
             in if medicos_especialidade = []
                then (Inr (resp False ''especialidades'' ''especialidade''), conversa1, bd)
                else processar_horarios amb [] conversa1 dados1 bd)"

subsection \<open>State \<open>solicitacao_anexo\<close>\<close>

definition processar_solicitacao_anexo ::
  "string \<Rightarrow> conversa \<Rightarrow> dados \<Rightarrow> db \<Rightarrow> resposta resultado" where
  "processar_solicitacao_anexo mensagem conversa dados bd =
     (let mensagem_lower = strip (lower mensagem)
      in if any_in [''enviei'', ''enviado'', ''anexei'', ''anexado'', ''upload'', ''foto'',
                    ''arquivo'', ''ok'', ''pronto'', ''sim''] mensagem_lower
         then
           let paciente = (case map_of dados ''paciente_id'' of
                             None \<Rightarrow> ''user''
                           | Some (DInt i) \<Rightarrow> str_int i
                           | Some (DStr s) \<Rightarrow> s
                           | Some _ \<Rightarrow> ''None'');
               dados1 = dict_set ''anexo_nome'' (DStr (''pedido_medico_'' @ paciente))
                          (dict_set ''anexo_recebido'' (DBool True) dados)
           in (Inr (resp True ''confirmacao'' ''confirmacao''),
               conversa\<lparr> cv_dados := dados1, cv_estado := ''confirmacao'' \<rparr>, bd)
         else if any_in [''pular'', ''sem anexo'', ''n'' @ [CHR 0xE3] @ ''o tenho'', ''nao tenho'',
                         ''depois'', ''n'' @ [CHR 0xE3] @ ''o'', ''nao''] mensagem_lower
         then (Inr (resp True ''confirmacao'' ''confirmacao''),
               conversa\<lparr> cv_estado := ''confirmacao'' \<rparr>, bd)
         else if any_in [''link'', ''upload'', ''anexo''] mensagem_lower
         then
           case Agendamento_create bd
                  \<lparr> kw_paciente_id = cv_paciente_id conversa,
                    kw_medico_id = as_int (map_of dados ''medico_id''),
                    kw_especialidade_id = as_int (map_of dados ''especialidade_id''),
                    kw_local_id = as_int (map_of dados ''local_id''),
                    kw_data = as_date (map_of dados ''data''),
                    kw_hora = as_str (map_of dados ''hora''),
                    kw_observacoes = [],
                    kw_status = Some ''pendente_anexo'',
                    kw_anexo_nome = [],
                    kw_anexo_path = [] \<rparr> of
             Inl e \<Rightarrow> (Inl e, conversa, bd)
           | Inr (temp_agendamento, bd1) \<Rightarrow>
               (Inr (resp True ''solicitacao_anexo'' ''solicitacao_anexo''),
                conversa\<lparr> cv_dados := dict_set ''agendamento_temp_id''
                                          (DInt (ag_id temp_agendamento)) dados \<rparr>,
                bd1)
         else (Inr (resp True ''solicitacao_anexo'' ''solicitacao_anexo''), conversa, bd))"

subsection \<open>State \<open>confirmacao\<close>\<close>

text \<open>\<open>dados[k]\<close>: a missing key raises KeyError.\<close>

definition dict_get :: "dados \<Rightarrow> string \<Rightarrow> erro + dval" where
  "dict_get d k = (case map_of d k of None \<Rightarrow> Inl (KeyError k) | Some v \<Rightarrow> Inr v)"

definition observacao_anexado :: string where
  "observacao_anexado = ''Pedido m'' @ [CHR 0xE9] @ ''dico anexado via chatbot''"

definition observacao_levar :: string where
  "observacao_levar =
     ''Especialidade requer pedido m'' @ [CHR 0xE9] @ ''dico - levar documento f'' @
     [CHR 0xED] @ ''sico''"

text \<open>
  The two notes stored in \<open>observacoes\<close> open with a pictograph outside Latin-1, which is
  left out. \<open>confirmar_agendamento\<close> is the body of the \<open>try\<close> of the affirmative branch of
  \<open>_processar_confirmacao\<close>, statement by statement; the keyword arguments of
  \<open>Agendamento.create\<close> are evaluated in their order, then the row is inserted, then the
  conversation is closed, and last the confirmation text reads four more keys of the draft.
\<close>

definition confirmar_agendamento :: "conversa \<Rightarrow> dados \<Rightarrow> db \<Rightarrow> resposta resultado" where
  "confirmar_agendamento conversa dados bd =
     (let anexo_nome = (case as_str (map_of dados ''anexo_nome'') of None \<Rightarrow> [] | Some s \<Rightarrow> s);
          recebido = truthy (map_of dados ''anexo_recebido'')
      in case (if recebido then Inr observacao_anexado
               else if \<not> truthy (map_of dados ''anexo_nome'')
               then (case dict_get dados ''especialidade_id'' of
                       Inl e \<Rightarrow> Inl e
                     | Inr v \<Rightarrow>
                         Inr (case as_int (Some v) of
                                None \<Rightarrow> []
                              | Some i \<Rightarrow>
                                  (case Especialidade_find_by_id bd i of
                                     None \<Rightarrow> []
                                   | Some esp \<Rightarrow>
                                       if esp_requer_anexo esp then observacao_levar else [])))
               else Inr []) of
           Inl e \<Rightarrow> (Inl e, conversa, bd)
         | Inr observacoes \<Rightarrow>
             (case dict_get dados ''medico_id'' of
                Inl e \<Rightarrow> (Inl e, conversa, bd)
              | Inr medico_id \<Rightarrow>
             (case dict_get dados ''especialidade_id'' of
                Inl e \<Rightarrow> (Inl e, conversa, bd)
              | Inr especialidade_id \<Rightarrow>
             (case dict_get dados ''local_id'' of
                Inl e \<Rightarrow> (Inl e, conversa, bd)
              | Inr local_id \<Rightarrow>
             (case dict_get dados ''data_agendamento'' of
                Inl e \<Rightarrow> (Inl e, conversa, bd)
              | Inr data \<Rightarrow>
             (case dict_get dados ''hora_agendamento'' of
                Inl e \<Rightarrow> (Inl e, conversa, bd)
              | Inr hora \<Rightarrow>
             (case Agendamento_create bd
                     \<lparr> kw_paciente_id = cv_paciente_id conversa,
                       kw_medico_id = as_int (Some medico_id),
                       kw_especialidade_id = as_int (Some especialidade_id),
                       kw_local_id = as_int (Some local_id),
                       kw_data = as_date (Some data),
                       kw_hora = as_str (Some hora),
                       kw_observacoes = observacoes,
                       kw_status = None,
                       kw_anexo_nome = anexo_nome,
                       kw_anexo_path = (if recebido then ''anexos/'' @ anexo_nome else []) \<rparr> of
                Inl e \<Rightarrow> (Inl e, conversa, bd)
              | Inr (agendamento, bd1) \<Rightarrow>
                  let conversa1 = conversa\<lparr> cv_estado := ''finalizado'', cv_dados := [] \<rparr>
                  in case first_some
                            [case dict_get dados k of Inl e \<Rightarrow> Some e | Inr _ \<Rightarrow> None.
                             k \<leftarrow> [''medico_nome'', ''especialidade_nome'', ''data_formatada'',
                                   ''hora_formatada'']] of
                       Some e \<Rightarrow> (Inl e, conversa1, bd1)
                     | None \<Rightarrow>
                         (Inr ((resp True ''sucesso'' ''finalizado'')
                                 \<lparr> r_agendamento_id := Some (ag_id agendamento) \<rparr>),
                          conversa1, bd1))))))))"

definition palavras_sim :: "string list" where
  "palavras_sim = [''sim'', ''s'', ''confirmo'', ''ok'', ''confirmar'']"

definition palavras_nao :: "string list" where
  "palavras_nao = [''n'' @ [CHR 0xE3] @ ''o'', ''nao'', ''n'', ''cancelar'', ''voltar'']"

definition processar_confirmacao ::
  "string \<Rightarrow> conversa \<Rightarrow> dados \<Rightarrow> db \<Rightarrow> resposta resultado" where
  "processar_confirmacao mensagem conversa dados bd =
     (let mensagem_lower = strip (lower mensagem)
      in if any_in palavras_sim mensagem_lower
         then (case confirmar_agendamento conversa dados bd of
                 (Inr r, conversa1, bd1) \<Rightarrow> (Inr r, conversa1, bd1)
               | (Inl e, conversa1, bd1) \<Rightarrow> (Inr (resp False ''erro'' ''horarios''), conversa1, bd1))
         else if any_in palavras_nao mensagem_lower
         then (Inr (resp True ''horarios'' ''horarios''),
               conversa\<lparr> cv_estado := ''horarios'' \<rparr>, bd)
         else (Inr (resp False ''confirmacao'' ''confirmacao''), conversa, bd))"

subsection \<open>State \<open>cadastro\<close>\<close>

text \<open>
  The registration steps. Two of its validators rest on library calls that are taken as
  given: \<open>am_validar_data_nascimento\<close> is \<open>_validar_data_nascimento\<close> followed by
  \<open>strftime('%Y-%m-%d')\<close> (\<open>strptime\<close> in three formats and a range test), and
  \<open>am_extrair_email\<close> is \<open>_extrair_email\<close> (\<open>re.findall\<close> of the e-mail pattern). A step
  name that the handler does not know makes it fall off its end and return Python's
  \<open>None\<close>, which is the \<open>None\<close> of the result.
\<close>

record validadores =
  am_validar_data_nascimento :: "string \<Rightarrow> string option"
  am_extrair_email :: "string \<Rightarrow> string option"

definition is_alnum :: "char \<Rightarrow> bool" where
  "is_alnum c =
     (let n = (of_char c :: nat)
      in (48 \<le> n \<and> n \<le> 57) \<or> (65 \<le> n \<and> n \<le> 90) \<or> (97 \<le> n \<and> n \<le> 122) \<or>
         n \<in> set [170, 178, 179, 181, 185, 186, 188, 189, 190] \<or>
         (192 \<le> n \<and> n \<le> 214) \<or> (216 \<le> n \<and> n \<le> 246) \<or> (248 \<le> n \<and> n \<le> 255))"

definition extrair_telefone :: "string \<Rightarrow> string option" where
  "extrair_telefone mensagem =
     (let telefone = filter is_digit mensagem
      in if length telefone \<ge> 10 \<and> length telefone \<le> 11 then Some telefone else None)"

text \<open>
  \<open>Paciente.create\<close>: \<open>cpf\<close> is NOT NULL and UNIQUE, \<open>nome\<close> is NOT NULL; the other columns
  of the new row are not read by the chatbot.
\<close>

definition Paciente_create :: "db \<Rightarrow> string option \<Rightarrow> string option \<Rightarrow> erro + (paciente \<times> db)" where
  "Paciente_create bd cpf nome =
     (case (cpf, nome) of
        (Some c, Some n) \<Rightarrow>
          if Paciente_find_by_cpf bd c \<noteq> None
          then Inl (IntegrityError ''UNIQUE constraint failed'')
          else
            let novo = \<lparr> pac_id = db_seq_pacientes bd, pac_cpf = c, pac_nome = n \<rparr>
            in Inr (novo, bd\<lparr> db_pacientes := db_pacientes bd @ [novo],
                              db_seq_pacientes := db_seq_pacientes bd + 1 \<rparr>)
      | _ \<Rightarrow> Inl (IntegrityError ''NOT NULL constraint failed''))"

definition pular_email :: "string list" where
  "pular_email = [''pular'', ''n'' @ [CHR 0xE3] @ ''o'', ''nao'']"

definition sem_carteirinha :: "string list" where
  "sem_carteirinha = [''particular'', ''nao'', ''n'' @ [CHR 0xE3] @ ''o'', ''sem plano'', ''pular'']"

definition processar_cadastro ::
  "validadores \<Rightarrow> string \<Rightarrow> conversa \<Rightarrow> dados \<Rightarrow> db \<Rightarrow> (resposta option) resultado" where
  "processar_cadastro val mensagem conversa dados bd =
     (let etapa = (case map_of dados ''etapa_cadastro'' of None \<Rightarrow> DStr ''nome'' | Some v \<Rightarrow> v)
      in if etapa = DStr ''nome''
         then (Inr (Some (resp True ''texto'' ''cadastro'')),
               conversa\<lparr> cv_dados := dict_set ''etapa_cadastro'' (DStr ''data_nascimento'')
                                         (dict_set ''nome'' (DStr (strip mensagem)) dados) \<rparr>,
               bd)
         else if etapa = DStr ''data_nascimento''
         then (case am_validar_data_nascimento val (strip mensagem) of
                 None \<Rightarrow> (Inr (Some (resp False ''texto'' ''cadastro'')), conversa, bd)
               | Some data \<Rightarrow>
                   (Inr (Some (resp True ''texto'' ''cadastro'')),
                    conversa\<lparr> cv_dados := dict_set ''etapa_cadastro'' (DStr ''telefone'')
                                              (dict_set ''data_nascimento'' (DStr data) dados) \<rparr>,
                    bd))
         else if etapa = DStr ''telefone''
         then (case extrair_telefone mensagem of
                 None \<Rightarrow> (Inr (Some (resp False ''texto'' ''cadastro'')), conversa, bd)
               | Some telefone \<Rightarrow>
                   (Inr (Some (resp True ''texto'' ''cadastro'')),
                    conversa\<lparr> cv_dados := dict_set ''etapa_cadastro'' (DStr ''email'')
                                              (dict_set ''telefone'' (DStr telefone) dados) \<rparr>,
                    bd))
         else if etapa = DStr ''email''
         then
           let pular = (lower (strip mensagem) \<in> set pular_email);
               email = (if pular then None else am_extrair_email val mensagem)
           in if \<not> pular \<and> \<not> truthy (map_option DStr email)
              then (Inr (Some (resp False ''texto'' ''cadastro'')), conversa, bd)
              else (Inr (Some (resp True ''texto'' ''cadastro'')),
                    conversa\<lparr> cv_dados :=
                                 dict_set ''etapa_cadastro'' (DStr ''carteirinha'')
                                   (dict_set ''email''
                                      (case email of None \<Rightarrow> DNone | Some e \<Rightarrow> DStr e) dados) \<rparr>,
                    bd)
         else if etapa = DStr ''carteirinha''
         then
           let mensagem_lower = lower (strip mensagem);
               carteirinha_limpa = filter is_alnum mensagem
           in if mensagem_lower \<notin> set sem_carteirinha \<and> \<not> length carteirinha_limpa \<ge> 6
              then (Inr (Some (resp False ''texto'' ''cadastro'')), conversa, bd)
              else
                let dados1 =
                      (if mensagem_lower \<notin> set sem_carteirinha
                       then dict_set ''tipo_atendimento'' (DStr ''plano'')
                              (dict_set ''carteirinha'' (DStr (take 50 carteirinha_limpa)) dados)
                       else dict_set ''tipo_atendimento'' (DStr ''particular'')
                              (dict_set ''carteirinha'' DNone dados))
                in case dict_get dados1 ''cpf'' of
                     Inl e \<Rightarrow> (Inl e, conversa, bd)
                   | Inr cpf \<Rightarrow>
                   (case dict_get dados1 ''nome'' of
                      Inl e \<Rightarrow> (Inl e, conversa, bd)
                    | Inr nome \<Rightarrow>
                   (case dict_get dados1 ''telefone'' of
                      Inl e \<Rightarrow> (Inl e, conversa, bd)
                    | Inr telefone \<Rightarrow>
                   (case Paciente_create bd (as_str (Some cpf)) (as_str (Some nome)) of
                      Inl e \<Rightarrow> (Inl e, conversa, bd)
                    | Inr (novo_paciente, bd1) \<Rightarrow>
                        (Inr (Some (resp True ''locais'' ''local'')),
                         conversa\<lparr> cv_paciente_id := Some (pac_id novo_paciente),
                                   cv_estado := ''local'',
                                   cv_dados := dict_set ''paciente_id''
                                                 (DInt (pac_id novo_paciente)) dados1 \<rparr>,
                         bd1))))
         else (Inr None, conversa, bd))"

subsection \<open>The entry point\<close>

text \<open>
  \<open>despachar\<close> is the body of the \<open>try\<close> of \<open>processar_mensagem\<close>, and \<open>processar_mensagem\<close>
  adds its \<open>except Exception\<close> clause. The function always returns: its result is the
  response (\<open>None\<close> being Python's \<open>None\<close>), the conversation and the database.
\<close>

definition com_resposta :: "resposta resultado \<Rightarrow> (resposta option) resultado" where
  "com_resposta r = (case r of (res, c, bd) \<Rightarrow> (map_sum id Some res, c, bd))"

definition despachar ::
  "ambiente \<Rightarrow> validadores \<Rightarrow> string \<Rightarrow> conversa \<Rightarrow> db \<Rightarrow> (resposta option) resultado" where
  "despachar amb val mensagem conversa bd =
     (let estado = (if cv_estado conversa = [] then ''inicio'' else cv_estado conversa);
          dados = cv_dados conversa
      in if estado \<noteq> ''cancelamento'' \<and> eh_cancelamento mensagem
         then com_resposta (processar_cancelamento mensagem
                (conversa\<lparr> cv_estado := ''cancelamento'', cv_dados := [] \<rparr>) bd)
         else if eh_saudacao mensagem
         then com_resposta (processar_inicio amb mensagem
                (conversa\<lparr> cv_estado := ''inicio'', cv_dados := [] \<rparr>) bd)
         else if estado = ''inicio'' \<or> estado = ''finalizado''
         then com_resposta (processar_inicio amb mensagem conversa bd)
         else if estado = ''aguardando_cpf''
         then com_resposta (processar_cpf mensagem conversa bd)
         else if estado = ''cadastro''
         then processar_cadastro val mensagem conversa dados bd
         else if estado = ''local''
         then com_resposta (processar_local mensagem conversa bd)
         else if estado = ''especialidade''
         then com_resposta (processar_especialidade amb mensagem conversa bd)
         else if estado = ''horarios''
         then com_resposta (processar_horarios amb mensagem conversa dados bd)
         else if estado = ''solicitacao_anexo''
         then com_resposta (processar_solicitacao_anexo mensagem conversa dados bd)
         else if estado = ''confirmacao''
         then com_resposta (processar_confirmacao mensagem conversa dados bd)
         else if estado = ''cancelamento''
         then com_resposta (processar_cancelamento mensagem conversa bd)
         else if estado = ''consulta_agendamentos''
         then com_resposta (processar_cpf mensagem conversa bd)
         else com_resposta (processar_inicio amb mensagem
                (conversa\<lparr> cv_estado := ''inicio'', cv_dados := [] \<rparr>) bd))"

definition processar_mensagem ::
  "ambiente \<Rightarrow> validadores \<Rightarrow> string \<Rightarrow> conversa \<Rightarrow> db \<Rightarrow> resposta option \<times> conversa \<times> db" where
  "processar_mensagem amb val mensagem conversa bd =
     (case despachar amb val mensagem conversa bd of
        (Inr r, conversa1, bd1) \<Rightarrow> (r, conversa1, bd1)
      | (Inl e, conversa1, bd1) \<Rightarrow>
          (Some resposta_erro, conversa1\<lparr> cv_estado := ''inicio'', cv_dados := [] \<rparr>, bd1))"

subsection \<open>A dialogue\<close>

text \<open>
  The caller (\<open>app.py\<close>) loads the conversation, calls \<open>processar_mensagem\<close> and saves the
  conversation as the call left it; it does not read \<open>proximo_estado\<close>. A dialogue is the
  run of that loop over a list of messages.
\<close>

fun dialogo :: "ambiente \<Rightarrow> validadores \<Rightarrow> string list \<Rightarrow> conversa \<Rightarrow> db \<Rightarrow> conversa \<times> db" where
  "dialogo amb val [] conversa bd = (conversa, bd)"
| "dialogo amb val (mensagem # mensagens) conversa bd =
     (case processar_mensagem amb val mensagem conversa bd of
        (r, conversa1, bd1) \<Rightarrow> dialogo amb val mensagens conversa1 bd1)"

text \<open>
  A draft holds a complete slot selection when it has the keys that the states
  \<open>local\<close>, \<open>especialidade\<close> and \<open>horarios\<close> store: the location, the specialty, and
  the doctor, date and time of the chosen slot with their display texts.
\<close>

definition selecao_no_rascunho :: "dados \<Rightarrow> int \<Rightarrow> int \<Rightarrow> int \<Rightarrow> date \<Rightarrow> string \<Rightarrow> bool" where
  "selecao_no_rascunho dados medico especialidade local_id data hora =
     (map_of dados ''medico_id'' = Some (DInt medico) \<and>
      map_of dados ''especialidade_id'' = Some (DInt especialidade) \<and>
      map_of dados ''local_id'' = Some (DInt local_id) \<and>
      map_of dados ''data_agendamento'' = Some (DDate data) \<and>
      map_of dados ''hora_agendamento'' = Some (DStr hora) \<and>
      map_of dados ''medico_nome'' \<noteq> None \<and>
      map_of dados ''especialidade_nome'' \<noteq> None \<and>
      map_of dados ''data_formatada'' \<noteq> None \<and>
      map_of dados ''hora_formatada'' \<noteq> None)"

text \<open>The rows that the foreign keys of a new appointment point to exist.\<close>

definition referencias_existem :: "db \<Rightarrow> int \<Rightarrow> int \<Rightarrow> int \<Rightarrow> int \<Rightarrow> bool" where
  "referencias_existem bd paciente medico especialidade local_id =
     (Paciente_find_by_id bd paciente \<noteq> None \<and> Medico_find_by_id bd medico \<noteq> None \<and>
      Especialidade_find_by_id bd especialidade \<noteq> None \<and>
      Local_find_by_id bd local_id \<noteq> None)"

section \<open>Example data\<close>

definition bd_ex :: db where
  "bd_ex =
     \<lparr> db_pacientes = [\<lparr>pac_id = 1, pac_cpf = ''12345678901'', pac_nome = ''Ana Souza''\<rparr>],
       db_locais = [\<lparr>loc_id = 1, loc_nome = ''Contagem'', loc_cidade = Some ''Contagem'',
                      loc_ativo = True\<rparr>],
       db_especialidades = [\<lparr>esp_id = 1, esp_nome = ''Cardiologia'', esp_ativo = True,
                              esp_requer_anexo = True\<rparr>],
       db_medicos = [\<lparr>med_id = 1, med_nome = ''Dra. Maria Santos'', med_crm = Some ''23456-SP'',
                       med_especialidade_id = 1, med_ativo = True,
                       med_data_abertura_agenda = None\<rparr>],
       db_horarios_disponiveis =
         [\<lparr>hdisp_id = 1, hdisp_medico_id = 1, hdisp_local_id = 1, hdisp_dia_semana = 2,
            hdisp_hora_inicio = ''08:00'', hdisp_hora_fim = ''09:30'',
            hdisp_duracao_consulta = Some 30, hdisp_ativo = True\<rparr>,
          \<lparr>hdisp_id = 2, hdisp_medico_id = 1, hdisp_local_id = 1, hdisp_dia_semana = 3,
            hdisp_hora_inicio = ''08:00'', hdisp_hora_fim = ''10:00'',
            hdisp_duracao_consulta = Some 30, hdisp_ativo = True\<rparr>],
       db_agendamentos =
         [\<lparr>ag_id = 1, ag_paciente_id = 1, ag_medico_id = 1, ag_especialidade_id = 1,
            ag_local_id = 1, ag_data = 739561, ag_hora = ''08:30'', ag_observacoes = [],
            ag_status = ''agendado'', ag_anexo_nome = [], ag_anexo_path = [],
            ag_motivo_cancelamento = []\<rparr>],
       db_seq_pacientes = 2,
       db_seq_agendamentos = 2,
       db_falha_consulta = (\<lambda>medico_id data hora. False) \<rparr>"

text \<open>The same database when the count for doctor 1 on 2025-11-06 at 08:30 fails.\<close>

definition bd_falha :: db where
  "bd_falha =
     bd_ex\<lparr> db_falha_consulta :=
              (\<lambda>medico_id data hora. medico_id = 1 \<and> data = 739561 \<and> hora = ''08:30'') \<rparr>"

definition rel_ex :: clock where
  "rel_ex = \<lparr> hoje = 739560, agora_seg = 25200 \<rparr>"

definition rows_ex :: "row list" where
  "rows_ex = [(m, h). h \<leftarrow> db_horarios_disponiveis bd_ex, m \<leftarrow> db_medicos bd_ex,
                        med_id m = hdisp_medico_id h]"

text \<open>
  The example database has one patient, one location, one specialty that requires an
  attachment, one doctor with availability on Wednesday 08:00-09:30 and Thursday
  08:00-10:00, and one scheduled appointment on Thursday 2025-11-06 (ordinal 739561) at
  08:30. The clock stands at Wednesday 2025-11-05 (ordinal 739560), 07:00. The remote
  classifier is unreachable and the two library validators reject everything.
\<close>

definition horarios_ex :: "horario list" where
  "horarios_ex =
     map (\<lambda>(d, df, dia, h, ts).
            \<lparr> h_medico_id = 1, h_medico_nome = ''Dra. Maria Santos'',
              h_especialidade = ''Cardiologia'', h_crm = Some ''23456-SP'', h_local_id = 1,
              h_local_nome = ''Contagem'', h_data = d, h_hora = h, h_data_formatada = df,
              h_hora_formatada = h, h_dia_semana = dia, h_duracao = 30, h_timestamp = ts \<rparr>)
         [(739561, ''06/11/2025'', ''Quinta'', ''08:00'', 63898099200),
          (739561, ''06/11/2025'', ''Quinta'', ''09:00'', 63898102800),
          (739561, ''06/11/2025'', ''Quinta'', ''09:30'', 63898104600),
          (739560, ''05/11/2025'', ''Quarta'', ''08:30'', 63898014600),
          (739560, ''05/11/2025'', ''Quarta'', ''09:00'', 63898016400)]"

definition amb_ex :: ambiente where
  "amb_ex = \<lparr> am_relogio = rel_ex, am_ia = (\<lambda>_. None) \<rparr>"

definition val_ex :: validadores where
  "val_ex = \<lparr> am_validar_data_nascimento = (\<lambda>_. None), am_extrair_email = (\<lambda>_. None) \<rparr>"

definition conversa_nova :: conversa where
  "conversa_nova = \<lparr> cv_estado = ''inicio'', cv_dados = [], cv_paciente_id = None \<rparr>"

definition conversa_cadastro :: conversa where
  "conversa_cadastro =
     \<lparr> cv_estado = ''cadastro'',
       cv_dados = [(''cpf'', DStr ''99999999999''), (''etapa_cadastro'', DStr ''nome'')],
       cv_paciente_id = None \<rparr>"

definition conversa_cancelamento :: conversa where
  "conversa_cancelamento = \<lparr> cv_estado = ''cancelamento'', cv_dados = [], cv_paciente_id = None \<rparr>"

definition dados_horarios :: dados where
  "dados_horarios =
     [(''cpf'', DStr ''12345678901''), (''paciente_id'', DInt 1),
      (''acao_desejada'', DStr ''agendar''), (''local_id'', DInt 1),
      (''local_nome'', DStr ''Contagem''), (''especialidade_id'', DInt 1),
      (''especialidade_nome'', DStr ''Cardiologia'')]"

definition conversa_horarios :: conversa where
  "conversa_horarios =
     \<lparr> cv_estado = ''horarios'', cv_dados = dados_horarios, cv_paciente_id = Some 1 \<rparr>"

definition dados_selecao :: dados where
  "dados_selecao =
     dados_horarios @
     [(''medico_id'', DInt 1), (''medico_nome'', DStr ''Dra. Maria Santos''),
      (''data_agendamento'', DDate 739561), (''hora_agendamento'', DStr ''08:00''),
      (''data_formatada'', DStr ''06/11/2025''), (''hora_formatada'', DStr ''08:00'')]"

definition conversa_confirmacao :: conversa where
  "conversa_confirmacao =
     \<lparr> cv_estado = ''confirmacao'', cv_dados = dados_selecao, cv_paciente_id = Some 1 \<rparr>"

text \<open>
  The row that a confirmation in \<open>conversa_confirmacao\<close> inserts into the example database:
  no attachment was announced, and the specialty requires one.
\<close>

definition agendado_ex :: agendamento where
  "agendado_ex =
     \<lparr> ag_id = 2, ag_paciente_id = 1, ag_medico_id = 1, ag_especialidade_id = 1,
       ag_local_id = 1, ag_data = 739561, ag_hora = ''08:00'',
       ag_observacoes = observacao_levar,
       ag_status = ''agendado'', ag_anexo_nome = [], ag_anexo_path = [],
       ag_motivo_cancelamento = [] \<rparr>"

definition conversa_anexo :: conversa where
  "conversa_anexo =
     \<lparr> cv_estado = ''solicitacao_anexo'',
       cv_dados = dados_selecao @ [(''agendamento_temp_id'', DInt 2)],
       cv_paciente_id = Some 1 \<rparr>"

text \<open>
  The attachment flow on the example database: the placeholder row that the slot choice
  inserts, the database with it, the conversation after the attachment was announced, and
  the row that the confirmation inserts.
\<close>

definition placeholder_ex :: agendamento where
  "placeholder_ex =
     \<lparr> ag_id = 2, ag_paciente_id = 1, ag_medico_id = 1, ag_especialidade_id = 1,
       ag_local_id = 1, ag_data = 739561, ag_hora = ''08:00'', ag_observacoes = [],
       ag_status = ''pendente_anexo'', ag_anexo_nome = [], ag_anexo_path = [],
       ag_motivo_cancelamento = [] \<rparr>"

definition bd_placeholder :: db where
  "bd_placeholder =
     bd_ex\<lparr> db_agendamentos := db_agendamentos bd_ex @ [placeholder_ex],
            db_seq_agendamentos := 3 \<rparr>"

definition conversa_anexo_enviado :: conversa where
  "conversa_anexo_enviado =
     \<lparr> cv_estado = ''confirmacao'',
       cv_dados = dados_selecao @
                  [(''agendamento_temp_id'', DInt 2), (''anexo_recebido'', DBool True),
                   (''anexo_nome'', DStr ''pedido_medico_1'')],
       cv_paciente_id = Some 1 \<rparr>"

definition confirmado_ex :: agendamento where
  "confirmado_ex =
     \<lparr> ag_id = 3, ag_paciente_id = 1, ag_medico_id = 1, ag_especialidade_id = 1,
       ag_local_id = 1, ag_data = 739561, ag_hora = ''08:00'',
       ag_observacoes = observacao_anexado,
       ag_status = ''agendado'', ag_anexo_nome = ''pedido_medico_1'',
       ag_anexo_path = ''anexos/pedido_medico_1'', ag_motivo_cancelamento = [] \<rparr>"

section \<open>Properties of slot generation\<close>

lemma slots_do_dia_inv:
  "(\<forall>s. slot_aceito bd rel r data_atual s \<longrightarrow> P (horario_info bd r data_atual s)) \<Longrightarrow>
   \<forall>e\<in>set horarios. P e \<Longrightarrow>
   \<forall>e\<in>set (slots_do_dia bd rel r data_atual fim slot horarios). P e"
proof (induction bd rel r data_atual fim slot horarios rule: slots_do_dia.induct)
  case (1 bd rel r data_atual fim slot horarios)
  let ?cedo = "passado_ou_sem_margem rel data_atual slot"
  let ?livre = "verificar_disponibilidade_slot_simples bd (row_medico_id r) data_atual
                  (strftime_HM slot)"
  let ?next = "slot + duracao_consulta r"
  show ?case
  proof (cases "slot < fim \<and> \<not> length horarios \<ge> 5")
    case False
    then have "slots_do_dia bd rel r data_atual fim slot horarios = horarios"
      by (subst slots_do_dia.simps) auto
    then show ?thesis using "1.prems"(2) by simp
  next
    case True
    then have a: "slot < fim" and b: "\<not> 5 \<le> length horarios" by simp_all
    show ?thesis
    proof (cases ?cedo)
      case cedo: True
      have eq: "slots_do_dia bd rel r data_atual fim slot horarios =
            slots_do_dia bd rel r data_atual fim ?next horarios"
        by (subst slots_do_dia.simps) (simp only: a b cedo if_True if_False not_False_eq_True)
      show ?thesis
        unfolding eq by (rule "1.IH"(1) [OF a b cedo "1.prems"])
    next
      case tarde: False
      show ?thesis
      proof (cases ?livre)
        case livre: True
        have eq: "slots_do_dia bd rel r data_atual fim slot horarios =
            slots_do_dia bd rel r data_atual fim ?next (horarios @ [horario_info bd r data_atual slot])"
          by (subst slots_do_dia.simps) (simp only: a b tarde livre if_True if_False not_False_eq_True)
        have "slot_aceito bd rel r data_atual slot"
          using tarde livre unfolding slot_aceito_def by blast
        then have "P (horario_info bd r data_atual slot)"
          using "1.prems"(1) by blast
        then have acc: "\<forall>e\<in>set (horarios @ [horario_info bd r data_atual slot]). P e"
          using "1.prems"(2) by simp
        show ?thesis
          unfolding eq by (rule "1.IH"(2) [OF a b tarde livre "1.prems"(1) acc])
      next
        case ocupado: False
        have eq: "slots_do_dia bd rel r data_atual fim slot horarios =
            slots_do_dia bd rel r data_atual fim ?next horarios"
          by (subst slots_do_dia.simps) (simp only: a b tarde ocupado if_True if_False not_False_eq_True)
        show ?thesis
          unfolding eq by (rule "1.IH"(3) [OF a b tarde ocupado "1.prems"])
      qed
    qed
  qed
qed


lemma rows_do_dia_inv:
  "(\<forall>r\<in>set rows. \<forall>s. slot_aceito bd rel r data_atual s \<longrightarrow> P (horario_info bd r data_atual s)) \<Longrightarrow>
   \<forall>e\<in>set horarios. P e \<Longrightarrow>
   rows_do_dia bd rel data_atual rows horarios = Some hs \<Longrightarrow>
   \<forall>e\<in>set hs. P e"
proof (induction rows arbitrary: horarios)
  case Nil
  then show ?case by simp
next
  case (Cons r rows)
  have tail: "\<forall>r\<in>set rows. \<forall>s. slot_aceito bd rel r data_atual s \<longrightarrow> P (horario_info bd r data_atual s)"
    using Cons.prems(1) by simp
  have here: "\<forall>s. slot_aceito bd rel r data_atual s \<longrightarrow> P (horario_info bd r data_atual s)"
    using Cons.prems(1) by simp
  let ?outro_dia = "hdisp_dia_semana (snd r) \<noteq> weekday data_atual"
  let ?fechada = "case Medico_find_by_id bd (row_medico_id r) of
                  Some medico \<Rightarrow> \<not> agenda_aberta medico data_atual
                | None \<Rightarrow> False"
  show ?case
  proof (cases "?outro_dia \<or> ?fechada")
    case True
    then have "rows_do_dia bd rel data_atual (r # rows) horarios =
               rows_do_dia bd rel data_atual rows horarios"
      by auto
    then have "rows_do_dia bd rel data_atual rows horarios = Some hs"
      using Cons.prems(3) by simp
    then show ?thesis by (rule Cons.IH [OF tail Cons.prems(2)])
  next
    case False
    then have unfold: "rows_do_dia bd rel data_atual (r # rows) horarios =
      (case strptime_HM (hdisp_hora_inicio (snd r)) of
          None \<Rightarrow> None
        | Some hora_inicio \<Rightarrow>
            (case strptime_HM (hdisp_hora_fim (snd r)) of
               None \<Rightarrow> None
             | Some hora_fim \<Rightarrow>
                 let horarios' = slots_do_dia bd rel r data_atual hora_fim hora_inicio horarios
                 in if length horarios' \<ge> 5 then Some horarios'
                    else rows_do_dia bd rel data_atual rows horarios'))"
      by simp
    obtain ini where ini: "strptime_HM (hdisp_hora_inicio (snd r)) = Some ini"
      using Cons.prems(3) unfolding unfold by (cases "strptime_HM (hdisp_hora_inicio (snd r))") simp_all
    obtain fim where fim: "strptime_HM (hdisp_hora_fim (snd r)) = Some fim"
      using Cons.prems(3) unfolding unfold ini by (cases "strptime_HM (hdisp_hora_fim (snd r))") simp_all
    let ?hs' = "slots_do_dia bd rel r data_atual fim ini horarios"
    have rest: "(if length ?hs' \<ge> 5 then Some ?hs'
                 else rows_do_dia bd rel data_atual rows ?hs') = Some hs"
      using Cons.prems(3) unfolding unfold ini fim by (simp add: Let_def)
    have mid: "\<forall>e\<in>set ?hs'. P e"
      by (rule slots_do_dia_inv [OF here Cons.prems(2)])
    show ?thesis
    proof (cases "length ?hs' \<ge> 5")
      case True
      then have "hs = ?hs'" using rest by simp
      then show ?thesis using mid by simp
    next
      case False
      then have "rows_do_dia bd rel data_atual rows ?hs' = Some hs" using rest by simp
      then show ?thesis by (rule Cons.IH [OF tail mid])
    qed
  qed
qed

lemma dias_loop_inv:
  "(\<forall>dia\<in>set dias. \<forall>r\<in>set rows. \<forall>s.
      weekday (hoje rel + dia) < 5 \<longrightarrow> slot_aceito bd rel r (hoje rel + dia) s \<longrightarrow>
      P (horario_info bd r (hoje rel + dia) s)) \<Longrightarrow>
   \<forall>e\<in>set horarios. P e \<Longrightarrow>
   dias_loop bd rel rows dias horarios = Some hs \<Longrightarrow>
   \<forall>e\<in>set hs. P e"
proof (induction dias arbitrary: horarios)
  case Nil
  then show ?case by simp
next
  case (Cons dia dias)
  have tail: "\<forall>dia\<in>set dias. \<forall>r\<in>set rows. \<forall>s.
      weekday (hoje rel + dia) < 5 \<longrightarrow> slot_aceito bd rel r (hoje rel + dia) s \<longrightarrow>
      P (horario_info bd r (hoje rel + dia) s)"
    using Cons.prems(1) by simp
  show ?case
  proof (cases "weekday (hoje rel + dia) \<ge> 5")
    case True
    then have "dias_loop bd rel rows dias horarios = Some hs"
      using Cons.prems(3) by (simp add: Let_def)
    then show ?thesis by (rule Cons.IH [OF tail Cons.prems(2)])
  next
    case False
    then have here: "\<forall>r\<in>set rows. \<forall>s. slot_aceito bd rel r (hoje rel + dia) s \<longrightarrow>
        P (horario_info bd r (hoje rel + dia) s)"
      using Cons.prems(1) by simp
    have unfold: "dias_loop bd rel rows (dia # dias) horarios =
       (case rows_do_dia bd rel (hoje rel + dia) rows horarios of
             None \<Rightarrow> None
           | Some horarios' \<Rightarrow>
               if length horarios' \<ge> 5 then Some horarios'
               else dias_loop bd rel rows dias horarios')"
      using False by (simp add: Let_def)
    obtain hs' where r: "rows_do_dia bd rel (hoje rel + dia) rows horarios = Some hs'"
      using Cons.prems(3) unfolding unfold
      by (cases "rows_do_dia bd rel (hoje rel + dia) rows horarios") simp_all
    have rest: "(if length hs' \<ge> 5 then Some hs' else dias_loop bd rel rows dias hs') = Some hs"
      using Cons.prems(3) unfolding unfold r by simp
    have mid: "\<forall>e\<in>set hs'. P e"
      by (rule rows_do_dia_inv [OF here Cons.prems(2) r])
    show ?thesis
    proof (cases "length hs' \<ge> 5")
      case True
      then have "hs = hs'" using rest by simp
      then show ?thesis using mid by simp
    next
      case False
      then have "dias_loop bd rel rows dias hs' = Some hs" using rest by simp
      then show ?thesis by (rule Cons.IH [OF tail mid])
    qed
  qed
qed

text \<open>Every returned slot was built from an input row on a working day of the window.\<close>

lemma gerar_horarios_origem:
  assumes "e \<in> set (gerar_horarios_disponiveis bd rel rows)"
  shows "\<exists>dia\<in>set (map int [0..<50]). \<exists>r\<in>set rows. \<exists>s.
           weekday (hoje rel + dia) < 5 \<and> slot_aceito bd rel r (hoje rel + dia) s \<and>
           e = horario_info bd r (hoje rel + dia) s"
proof (cases "dias_loop bd rel rows (map int [0..<50]) []")
  case None
  then show ?thesis using assms by (simp add: gerar_horarios_disponiveis_def)
next
  case (Some hs)
  let ?P = "\<lambda>e. \<exists>dia\<in>set (map int [0..<50]). \<exists>r\<in>set rows. \<exists>s.
           weekday (hoje rel + dia) < 5 \<and> slot_aceito bd rel r (hoje rel + dia) s \<and>
           e = horario_info bd r (hoje rel + dia) s"
  have "\<forall>e\<in>set hs. ?P e"
  proof (rule dias_loop_inv [OF _ _ Some])
    show "\<forall>dia\<in>set (map int [0..<50]). \<forall>r\<in>set rows. \<forall>s.
      weekday (hoje rel + dia) < 5 \<longrightarrow> slot_aceito bd rel r (hoje rel + dia) s \<longrightarrow>
      ?P (horario_info bd r (hoje rel + dia) s)"
      by blast
    show "\<forall>e\<in>set []. ?P e" by simp
  qed
  moreover have "e \<in> set hs"
    using assms Some by (auto simp: gerar_horarios_disponiveis_def dest: in_set_takeD)
  ultimately show ?thesis by blast
qed

lemma strftime_HM_ex:
  "strftime_HM 480 = ''08:00''" "strftime_HM 510 = ''08:30''" "strftime_HM 540 = ''09:00''"
  "strftime_HM 570 = ''09:30''"
  by (simp_all add: strftime_HM_def fmt02_def dec_digits.simps digit_char_def)

lemma dias_ex: "map int [0..<50] = 0 # 1 # map int [2..<50]"
  by (simp add: upt_conv_Cons)

lemma strftime_dmY_ex:
  "strftime_dmY 739560 = ''05/11/2025''" "strftime_dmY 739561 = ''06/11/2025''"
  by (simp_all add: strftime_dmY_def ord2ymd_def Let_def DAYS_BEFORE_MONTH_def DAYS_IN_MONTH_def
        fmt02_def fmt04_def dec_digits.simps digit_char_def)

lemma nomes_dia_ex: "nomes_dia_semana ! 2 = ''Quarta''" "nomes_dia_semana ! 3 = ''Quinta''"
  by (simp_all add: nomes_dia_semana_def)

lemma gerar_ex_full: "gerar_horarios_disponiveis bd_ex rel_ex rows_ex = horarios_ex"
  by (simp add: gerar_horarios_disponiveis_def rows_ex_def bd_ex_def rel_ex_def Let_def weekday_def
        Medico_find_by_id_def find_first_def agenda_aberta_def row_medico_id_def row_values_def
        is_digit_def hour_ok_def digit_val_def slots_do_dia.simps passado_ou_sem_margem_def
        duracao_consulta_def verificar_disponibilidade_slot_simples_def contar_agendados_def strftime_HM_ex
        horario_info_def sort_key_horario_def dias_ex horarios_ex_def strftime_dmY_ex
        obter_nome_local_def obter_dados_medico_def Local_find_by_id_def nomes_dia_ex)

lemma gerar_ex:
  "map (\<lambda>h. (h_medico_id h, h_data h, h_hora h, h_timestamp h))
       (gerar_horarios_disponiveis bd_ex rel_ex rows_ex) =
   [(1, 739561, ''08:00'', 63898099200), (1, 739561, ''09:00'', 63898102800),
    (1, 739561, ''09:30'', 63898104600), (1, 739560, ''08:30'', 63898014600),
    (1, 739560, ''09:00'', 63898016400)]"
  by (simp add: gerar_horarios_disponiveis_def rows_ex_def bd_ex_def rel_ex_def Let_def weekday_def
        Medico_find_by_id_def find_first_def agenda_aberta_def row_medico_id_def row_values_def
        is_digit_def hour_ok_def digit_val_def slots_do_dia.simps passado_ou_sem_margem_def
        duracao_consulta_def verificar_disponibilidade_slot_simples_def contar_agendados_def strftime_HM_ex
        horario_info_def sort_key_horario_def dias_ex)

lemma gerar_ex_length: "length (gerar_horarios_disponiveis bd_ex rel_ex rows_ex) = 5"
  using arg_cong [OF gerar_ex, of length] by simp

lemma gerar_ex_nth:
  "i < 5 \<Longrightarrow>
   (h_medico_id (gerar_horarios_disponiveis bd_ex rel_ex rows_ex ! i),
    h_data (gerar_horarios_disponiveis bd_ex rel_ex rows_ex ! i),
    h_hora (gerar_horarios_disponiveis bd_ex rel_ex rows_ex ! i),
    h_timestamp (gerar_horarios_disponiveis bd_ex rel_ex rows_ex ! i)) =
   [(1, 739561, ''08:00'', 63898099200), (1, 739561, ''09:00'', 63898102800),
    (1, 739561, ''09:30'', 63898104600), (1, 739560, ''08:30'', 63898014600),
    (1, 739560, ''09:00'', 63898016400)] ! i"
  using arg_cong [OF gerar_ex, of "\<lambda>xs. xs ! i"] gerar_ex_length by simp

lemma gerar_falha:
  "map (\<lambda>h. (h_medico_id h, h_data h, h_hora h))
       (gerar_horarios_disponiveis bd_falha rel_ex rows_ex) =
   [(1, 739561, ''08:00''), (1, 739561, ''08:30''), (1, 739561, ''09:00''),
    (1, 739560, ''08:30''), (1, 739560, ''09:00'')]"
  by (simp add: gerar_horarios_disponiveis_def rows_ex_def bd_falha_def bd_ex_def rel_ex_def
        Let_def weekday_def
        Medico_find_by_id_def find_first_def agenda_aberta_def row_medico_id_def row_values_def
        is_digit_def hour_ok_def digit_val_def slots_do_dia.simps passado_ou_sem_margem_def
        duracao_consulta_def verificar_disponibilidade_slot_simples_def contar_agendados_def
        strftime_HM_ex horario_info_def sort_key_horario_def dias_ex)

text \<open>
  Claim C1. Every entry of a list returned by slot generation has a (doctor, date, time)
  for which the existence check \<open>_verificar_disponibilidade_slot_simples\<close> answered
  "available". When the count query of that doctor, date and time did not fail, the table
  holds no appointment with status \<open>agendado\<close> for that doctor, date and time.
\<close>

theorem slots_avoid_scheduled:
  assumes "e \<in> set (gerar_horarios_disponiveis bd rel rows)"
  shows "verificar_disponibilidade_slot_simples bd (h_medico_id e) (h_data e) (h_hora e) \<and>
         (\<not> db_falha_consulta bd (h_medico_id e) (h_data e) (h_hora e) \<longrightarrow>
          \<not> (\<exists>a\<in>set (db_agendamentos bd).
                ag_medico_id a = h_medico_id e \<and> ag_data a = h_data e \<and>
                ag_hora a = h_hora e \<and> ag_status a = ''agendado''))"
proof -
  from gerar_horarios_origem [OF assms] obtain dia r s where
    ok: "slot_aceito bd rel r (hoje rel + dia) s" and
    e: "e = horario_info bd r (hoje rel + dia) s"
    by blast
  have livre: "verificar_disponibilidade_slot_simples bd (h_medico_id e) (h_data e) (h_hora e)"
    using ok unfolding e by (simp add: slot_aceito_def horario_info_def Let_def)
  have "\<not> (\<exists>a\<in>set (db_agendamentos bd).
               ag_medico_id a = h_medico_id e \<and> ag_data a = h_data e \<and>
               ag_hora a = h_hora e \<and> ag_status a = ''agendado'')"
    if responde: "\<not> db_falha_consulta bd (h_medico_id e) (h_data e) (h_hora e)"
  proof -
    have "filter (\<lambda>a. ag_medico_id a = h_medico_id e \<and> ag_data a = h_data e \<and>
                         ag_hora a = h_hora e \<and> ag_status a = ''agendado'')
                    (db_agendamentos bd) = []"
      using livre responde
      by (simp add: verificar_disponibilidade_slot_simples_def contar_agendados_def)
    then show ?thesis by (simp add: filter_empty_conv)
  qed
  with livre show ?thesis by blast
qed

theorem slots_avoid_scheduled_witness:
  "gerar_horarios_disponiveis bd_ex rel_ex rows_ex ! 1 \<in>
     set (gerar_horarios_disponiveis bd_ex rel_ex rows_ex) \<and>
   \<not> db_falha_consulta bd_ex 1 739561 ''09:00'' \<and>
   verificar_disponibilidade_slot_simples bd_ex 1 739561 ''09:00'' \<and>
   filter (\<lambda>a. ag_medico_id a = 1 \<and> ag_data a = 739561 \<and> ag_hora a = ''09:00'' \<and>
               ag_status a = ''agendado'')
          (db_agendamentos bd_ex) = []"
proof -
  let ?e = "gerar_horarios_disponiveis bd_ex rel_ex rows_ex ! 1"
  have m: "?e \<in> set (gerar_horarios_disponiveis bd_ex rel_ex rows_ex)"
    by (rule nth_mem) (simp add: gerar_ex_length)
  have f: "h_medico_id ?e = 1" "h_data ?e = 739561" "h_hora ?e = ''09:00''"
    using gerar_ex_nth [of 1] by simp_all
  have responde: "\<not> db_falha_consulta bd_ex 1 739561 ''09:00''"
    by (simp add: bd_ex_def)
  from slots_avoid_scheduled [OF m] responde
  have "verificar_disponibilidade_slot_simples bd_ex 1 739561 ''09:00'' \<and>
        \<not> (\<exists>a\<in>set (db_agendamentos bd_ex).
              ag_medico_id a = 1 \<and> ag_data a = 739561 \<and> ag_hora a = ''09:00'' \<and>
              ag_status a = ''agendado'')"
    unfolding f by blast
  then show ?thesis using m responde by (simp add: filter_empty_conv)
qed

text \<open>
  Claim C1 as stated fails where the count query fails: the check then answers
  "available" without having looked at the table. On the example database with a failing
  count for doctor 1 on 2025-11-06 at 08:30, the second entry of the returned list is that
  doctor, date and time, and the first row of the appointment table is a scheduled
  appointment on it.
\<close>

theorem slots_fail_open_counterexample:
  "gerar_horarios_disponiveis bd_falha rel_ex rows_ex ! 1 \<in>
     set (gerar_horarios_disponiveis bd_falha rel_ex rows_ex) \<and>
   h_medico_id (gerar_horarios_disponiveis bd_falha rel_ex rows_ex ! 1) = 1 \<and>
   h_data (gerar_horarios_disponiveis bd_falha rel_ex rows_ex ! 1) = 739561 \<and>
   h_hora (gerar_horarios_disponiveis bd_falha rel_ex rows_ex ! 1) = ''08:30'' \<and>
   db_agendamentos bd_falha ! 0 \<in> set (db_agendamentos bd_falha) \<and>
   ag_medico_id (db_agendamentos bd_falha ! 0) = 1 \<and>
   ag_data (db_agendamentos bd_falha ! 0) = 739561 \<and>
   ag_hora (db_agendamentos bd_falha ! 0) = ''08:30'' \<and>
   ag_status (db_agendamentos bd_falha ! 0) = ''agendado''"
proof -
  let ?hs = "gerar_horarios_disponiveis bd_falha rel_ex rows_ex"
  have len: "length ?hs = 5"
    using arg_cong [OF gerar_falha, of length] by simp
  have m: "?hs ! 1 \<in> set ?hs"
    by (rule nth_mem) (simp add: len)
  have "(h_medico_id (?hs ! 1), h_data (?hs ! 1), h_hora (?hs ! 1)) = (1, 739561, ''08:30'')"
    using arg_cong [OF gerar_falha, of "\<lambda>xs. xs ! 1"] len by simp
  then have f: "h_medico_id (?hs ! 1) = 1" "h_data (?hs ! 1) = 739561"
               "h_hora (?hs ! 1) = ''08:30''"
    by simp_all
  have a: "db_agendamentos bd_falha ! 0 \<in> set (db_agendamentos bd_falha)"
          "ag_medico_id (db_agendamentos bd_falha ! 0) = 1"
          "ag_data (db_agendamentos bd_falha ! 0) = 739561"
          "ag_hora (db_agendamentos bd_falha ! 0) = ''08:30''"
          "ag_status (db_agendamentos bd_falha ! 0) = ''agendado''"
    by (simp_all add: bd_falha_def bd_ex_def)
  show ?thesis using m f a by simp
qed

text \<open>
  Claim C2. For every list of doctor-availability rows, the returned list has at most 5
  entries, no entry falls on a Saturday (5) or Sunday (6), every date lies in the 50 days
  starting today, and an entry dated today is later than the current time plus one hour.
\<close>

theorem slots_bounded_window:
  "length (gerar_horarios_disponiveis bd rel rows) \<le> 5 \<and>
   (\<forall>e\<in>set (gerar_horarios_disponiveis bd rel rows).
      weekday (h_data e) \<noteq> 5 \<and> weekday (h_data e) \<noteq> 6 \<and>
      hoje rel \<le> h_data e \<and> h_data e < hoje rel + 50 \<and>
      (h_data e = hoje rel \<longrightarrow> hoje rel * 86400 + agora_seg rel + 3600 < h_timestamp e))"
proof -
  have len: "length (gerar_horarios_disponiveis bd rel rows) \<le> 5"
    by (simp add: gerar_horarios_disponiveis_def split: option.splits)
  have each: "weekday (h_data e) \<noteq> 5 \<and> weekday (h_data e) \<noteq> 6 \<and>
      hoje rel \<le> h_data e \<and> h_data e < hoje rel + 50 \<and>
      (h_data e = hoje rel \<longrightarrow> hoje rel * 86400 + agora_seg rel + 3600 < h_timestamp e)"
    if "e \<in> set (gerar_horarios_disponiveis bd rel rows)" for e
  proof -
    from gerar_horarios_origem [OF that] obtain dia r s where
      dia: "dia \<in> set (map int [0..<50])" and
      wd: "weekday (hoje rel + dia) < 5" and
      ok: "slot_aceito bd rel r (hoje rel + dia) s" and
      e: "e = horario_info bd r (hoje rel + dia) s"
      by blast
    have d: "h_data e = hoje rel + dia" and t: "h_timestamp e = (hoje rel + dia) * 86400 + s * 60"
      unfolding e by (simp_all add: horario_info_def Let_def)
    have range: "0 \<le> dia \<and> dia < 50" using dia by auto
    have margin: "\<not> passado_ou_sem_margem rel (hoje rel + dia) s"
      using ok by (simp add: slot_aceito_def)
    have "h_data e = hoje rel \<longrightarrow> hoje rel * 86400 + agora_seg rel + 3600 < h_timestamp e"
      using margin unfolding d t passado_ou_sem_margem_def by auto
    then show ?thesis using wd range unfolding d by simp
  qed
  show ?thesis using len each by blast
qed

theorem slots_bounded_window_witness:
  "length (gerar_horarios_disponiveis bd_ex rel_ex rows_ex) \<le> 5 \<and>
   weekday 739560 \<noteq> 5 \<and> weekday 739560 \<noteq> 6 \<and>
   hoje rel_ex \<le> 739560 \<and> 739560 < hoje rel_ex + 50 \<and>
   hoje rel_ex * 86400 + agora_seg rel_ex + 3600 < 63898014600"
proof -
  let ?e = "gerar_horarios_disponiveis bd_ex rel_ex rows_ex ! 3"
  have m: "?e \<in> set (gerar_horarios_disponiveis bd_ex rel_ex rows_ex)"
    by (rule nth_mem) (simp add: gerar_ex_length)
  have f: "h_data ?e = 739560" "h_timestamp ?e = 63898014600"
    using gerar_ex_nth [of 3] by simp_all
  have h: "hoje rel_ex = 739560" by (simp add: rel_ex_def)
  have today: "h_data ?e = hoje rel_ex" unfolding f h ..
  from slots_bounded_window [of bd_ex rel_ex rows_ex] m today
  have "length (gerar_horarios_disponiveis bd_ex rel_ex rows_ex) \<le> 5 \<and>
      weekday (h_data ?e) \<noteq> 5 \<and> weekday (h_data ?e) \<noteq> 6 \<and>
      hoje rel_ex \<le> h_data ?e \<and> h_data ?e < hoje rel_ex + 50 \<and>
      hoje rel_ex * 86400 + agora_seg rel_ex + 3600 < h_timestamp ?e"
    by blast
  then show ?thesis unfolding f .
qed

lemma gerar_horarios_sorted:
  "sorted (map sort_key_horario (gerar_horarios_disponiveis bd rel rows))"
proof (cases "dias_loop bd rel rows (map int [0..<50]) []")
  case None
  then show ?thesis by (simp add: gerar_horarios_disponiveis_def)
next
  case (Some hs)
  have "sorted (take 5 (map sort_key_horario (sort_key sort_key_horario hs)))"
    by (rule sorted_wrt_take) (rule sorted_sort_key)
  then show ?thesis using Some by (simp add: gerar_horarios_disponiveis_def take_map)
qed

text \<open>
  Claim C3. In a returned list no entry that is not on a Thursday comes before an entry on
  a Thursday, and two entries of the same group (both on a Thursday, or both not) appear in
  non-decreasing order of their timestamp.
\<close>

theorem thursday_first_then_chronological:
  assumes "i < j" and "j < length (gerar_horarios_disponiveis bd rel rows)"
  shows "(weekday (h_data (gerar_horarios_disponiveis bd rel rows ! j)) = 3 \<longrightarrow>
          weekday (h_data (gerar_horarios_disponiveis bd rel rows ! i)) = 3) \<and>
         ((weekday (h_data (gerar_horarios_disponiveis bd rel rows ! i)) = 3) =
          (weekday (h_data (gerar_horarios_disponiveis bd rel rows ! j)) = 3) \<longrightarrow>
          h_timestamp (gerar_horarios_disponiveis bd rel rows ! i) \<le>
          h_timestamp (gerar_horarios_disponiveis bd rel rows ! j))"
proof -
  let ?hs = "gerar_horarios_disponiveis bd rel rows"
  have "map sort_key_horario ?hs ! i \<le> map sort_key_horario ?hs ! j"
    using gerar_horarios_sorted assms by (simp add: sorted_iff_nth_mono del: nth_map)
  then have "sort_key_horario (?hs ! i) \<le> sort_key_horario (?hs ! j)"
    using assms by simp
  then show ?thesis
    by (auto simp: sort_key_horario_def less_eq_prod_def split: if_splits)
qed

theorem thursday_first_then_chronological_witness:
  "(0::nat) < 1 \<and> 1 < length (gerar_horarios_disponiveis bd_ex rel_ex rows_ex) \<and>
   weekday (h_data (gerar_horarios_disponiveis bd_ex rel_ex rows_ex ! 0)) = 3 \<and>
   weekday (h_data (gerar_horarios_disponiveis bd_ex rel_ex rows_ex ! 1)) = 3 \<and>
   h_timestamp (gerar_horarios_disponiveis bd_ex rel_ex rows_ex ! 0) \<le>
   h_timestamp (gerar_horarios_disponiveis bd_ex rel_ex rows_ex ! 1)"
proof -
  let ?hs = "gerar_horarios_disponiveis bd_ex rel_ex rows_ex"
  have a: "(0::nat) < 1" by simp
  have b: "1 < length ?hs" by (simp add: gerar_ex_length)
  have f: "h_data (?hs ! 0) = 739561" "h_data (?hs ! 1) = 739561"
    using gerar_ex_nth [of 0] gerar_ex_nth [of 1] by simp_all
  have w: "weekday (h_data (?hs ! 0)) = 3" "weekday (h_data (?hs ! 1)) = 3"
    unfolding f by (simp_all add: weekday_def)
  show ?thesis
    using a b w thursday_first_then_chronological [OF a b] by simp
qed

section \<open>Properties of the Choice Interpreter\<close>

text \<open>
  Claim C9. For a non-empty candidate list and a message that is not a number and from
  which neither a date fragment nor a time fragment is extracted, the Choice Interpreter
  returns the first candidate.
\<close>

theorem first_candidate_fallthrough:
  assumes "horarios_disponiveis \<noteq> []"
    and "\<not> numero_match (strip mensagem)"
    and "data_encontrada rel mensagem = None"
    and "hora_encontrada mensagem = None"
  shows "interpretar_escolha_horario rel mensagem horarios_disponiveis =
         Some (hd horarios_disponiveis)"
proof -
  obtain h hs where l: "horarios_disponiveis = h # hs"
    using assms(1) by (cases horarios_disponiveis) auto
  show ?thesis
    unfolding interpretar_escolha_horario_def l using assms(2-4) by (simp add: Let_def)
qed

lemma amanha_numero: "\<not> numero_match (strip ''amanha cedo'')"
  by (simp add: numero_match_def strip_def is_space_def is_digit_def)

lemma amanha_data: "data_encontrada rel_ex ''amanha cedo'' = None"
  by (simp add: data_encontrada_def first_some_def data_pattern_at_def is_digit_def)

lemma amanha_hora: "hora_encontrada ''amanha cedo'' = None"
  by (simp add: hora_encontrada_def first_some_def hora_pattern1_at_def hora_pattern2_at_def
        hora_pattern3_at_def is_digit_def)

theorem first_candidate_fallthrough_witness:
  "horarios_ex \<noteq> [] \<and> \<not> numero_match (strip ''amanha cedo'') \<and>
   data_encontrada rel_ex ''amanha cedo'' = None \<and> hora_encontrada ''amanha cedo'' = None \<and>
   interpretar_escolha_horario rel_ex ''amanha cedo'' horarios_ex = Some (hd horarios_ex)"
proof -
  have n: "horarios_ex \<noteq> []" by (simp add: horarios_ex_def)
  show ?thesis
    using n amanha_numero amanha_data amanha_hora
      first_candidate_fallthrough [OF n amanha_numero amanha_data amanha_hora]
    by simp
qed

section \<open>Properties of the dialogue\<close>

lemma starts_with_iff: "starts_with s p \<longleftrightarrow> (\<exists>suf. s = p @ suf)"
  by (induction s p rule: starts_with.induct) auto

lemma str_in_iff: "str_in sub s \<longleftrightarrow> (\<exists>pre suf. s = pre @ sub @ suf)"
proof (induction s)
  case Nil
  then show ?case by auto
next
  case (Cons c cs)
  show ?case
  proof
    assume "str_in sub (c # cs)"
    then consider "starts_with (c # cs) sub" | "str_in sub cs" by auto
    then show "\<exists>pre suf. c # cs = pre @ sub @ suf"
    proof cases
      case 1
      then obtain suf where "c # cs = sub @ suf" by (auto simp: starts_with_iff)
      then have "c # cs = [] @ sub @ suf" by simp
      then show ?thesis by blast
    next
      case 2
      then obtain pre suf where "cs = pre @ sub @ suf" using Cons.IH by blast
      then have "c # cs = (c # pre) @ sub @ suf" by simp
      then show ?thesis by blast
    qed
  next
    assume "\<exists>pre suf. c # cs = pre @ sub @ suf"
    then obtain pre suf where e: "c # cs = pre @ sub @ suf" by blast
    show "str_in sub (c # cs)"
    proof (cases pre)
      case Nil
      then have "starts_with (c # cs) sub" using e by (auto simp: starts_with_iff)
      then show ?thesis by simp
    next
      case (Cons p ps)
      then have "cs = ps @ sub @ suf" using e by simp
      then have "str_in sub cs" using Cons.IH by blast
      then show ?thesis by simp
    qed
  qed
qed

lemma any_in_iff: "any_in ws s \<longleftrightarrow> (\<exists>w\<in>set ws. \<exists>pre suf. s = pre @ w @ suf)"
  by (simp add: any_in_def list_ex_iff str_in_iff)

lemma processar_inicio_returns:
  "\<exists>r estado. processar_inicio amb mensagem conversa bd =
                (Inr r, conversa\<lparr> cv_estado := estado \<rparr>, bd)"
proof -
  have same: "conversa = conversa\<lparr> cv_estado := cv_estado conversa \<rparr>" by simp
  show ?thesis
    unfolding processar_inicio_def Let_def
    by (metis same)
qed

lemma lower_heloisa: "lower ''Heloisa Lima'' = ''heloisa lima''"
  by code_simp

lemma heloisa_nao_cancela: "\<not> eh_cancelamento ''Heloisa Lima''"
  by (simp add: eh_cancelamento_def lower_heloisa any_in_def palavras_cancelamento_def)

text \<open>
  Claim C10. The greeting override matches by substring: whenever the lowercased message
  contains one of the greeting words anywhere (\<open>lower mensagem = pre @ g @ suf\<close>) and
  no cancellation keyword, \<open>processar_mensagem\<close> hands the message to the start handler on
  the conversation reset to state \<open>inicio\<close> with an empty draft, whatever the state and
  the draft were; the draft is still empty afterwards. The example is a patient name,
  \<open>Heloisa Lima\<close>, typed at the name step of the registration.
\<close>

theorem greeting_substring_resets:
  assumes "g \<in> set saudacoes"
    and "lower mensagem = pre @ g @ suf"
    and "\<not> eh_cancelamento mensagem"
  shows "\<exists>r conversa1.
           processar_inicio amb mensagem
             (conversa\<lparr> cv_estado := ''inicio'', cv_dados := [] \<rparr>) bd = (Inr r, conversa1, bd) \<and>
           processar_mensagem amb val mensagem conversa bd = (Some r, conversa1, bd) \<and>
           cv_dados conversa1 = []"
proof -
  have s: "eh_saudacao mensagem"
    unfolding eh_saudacao_def any_in_iff using assms(1,2) by blast
  obtain r estado where
    i: "processar_inicio amb mensagem (conversa\<lparr> cv_estado := ''inicio'', cv_dados := [] \<rparr>) bd =
          (Inr r, conversa\<lparr> cv_estado := ''inicio'', cv_dados := [] \<rparr>\<lparr> cv_estado := estado \<rparr>, bd)"
    using processar_inicio_returns by blast
  have d: "despachar amb val mensagem conversa bd =
           com_resposta (processar_inicio amb mensagem
             (conversa\<lparr> cv_estado := ''inicio'', cv_dados := [] \<rparr>) bd)"
    using s assms(3) by (simp add: despachar_def Let_def)
  have "processar_mensagem amb val mensagem conversa bd =
          (Some r, conversa\<lparr> cv_estado := ''inicio'', cv_dados := [] \<rparr>\<lparr> cv_estado := estado \<rparr>, bd)"
    unfolding processar_mensagem_def d i by (simp add: com_resposta_def)
  with i show ?thesis by simp
qed

theorem greeting_substring_resets_witness:
  "''oi'' \<in> set saudacoes \<and> lower ''Heloisa Lima'' = ''hel'' @ ''oi'' @ ''sa lima'' \<and>
   \<not> eh_cancelamento ''Heloisa Lima'' \<and>
   cv_dados conversa_cadastro \<noteq> [] \<and>
   cv_dados (fst (snd (processar_mensagem amb_ex val_ex ''Heloisa Lima'' conversa_cadastro bd_ex))) = []"
proof -
  have a: "''oi'' \<in> set saudacoes" by (simp add: saudacoes_def)
  have b: "lower ''Heloisa Lima'' = ''hel'' @ ''oi'' @ ''sa lima''" by (simp add: lower_heloisa)
  have c: "cv_dados conversa_cadastro \<noteq> []" by (simp add: conversa_cadastro_def)
  from greeting_substring_resets [OF a b heloisa_nao_cancela, of amb_ex conversa_cadastro bd_ex val_ex]
  have "cv_dados (fst (snd (processar_mensagem amb_ex val_ex ''Heloisa Lima'' conversa_cadastro bd_ex))) = []"
    by auto
  with a b c heloisa_nao_cancela show ?thesis by blast
qed


















lemma processar_cpf_cancelamento:
  assumes "cv_estado conversa = ''cancelamento''"
  shows "\<exists>r conversa1.
           processar_cpf mensagem conversa bd = (Inr r, conversa1, bd) \<and>
           cv_estado conversa1 = ''cancelamento'' \<and>
           ((\<forall>cpf. extrair_cpf mensagem = Some cpf \<longrightarrow> Paciente_find_by_cpf bd cpf = None) \<longrightarrow>
            cv_dados conversa1 = cv_dados conversa)"
  using assms
  by (auto simp: processar_cpf_def Let_def processar_cancelamento_cpf_valido_def
           split: option.splits)

text \<open>
  Claim C8, as amended. From every state other than \<open>cancelamento\<close>, a message with a
  cancellation keyword sets the state to \<open>cancelamento\<close> and clears the draft, and then the
  cancellation handler processes that same message. The conversation ends in state
  \<open>cancelamento\<close>; its draft is empty unless the message also carries exactly 11 digits
  that are the national ID of a registered patient.
\<close>

theorem cancel_keyword_enters_cancellation:
  assumes "cv_estado conversa \<noteq> ''cancelamento''"
    and "eh_cancelamento mensagem"
  shows "\<exists>r conversa1.
           processar_cancelamento mensagem
             (conversa\<lparr> cv_estado := ''cancelamento'', cv_dados := [] \<rparr>) bd =
             (Inr r, conversa1, bd) \<and>
           processar_mensagem amb val mensagem conversa bd = (Some r, conversa1, bd) \<and>
           cv_estado conversa1 = ''cancelamento'' \<and>
           ((\<forall>cpf. extrair_cpf mensagem = Some cpf \<longrightarrow> Paciente_find_by_cpf bd cpf = None) \<longrightarrow>
            cv_dados conversa1 = [])"
proof -
  let ?c = "conversa\<lparr> cv_estado := ''cancelamento'', cv_dados := [] \<rparr>"
  have e: "cv_estado ?c = ''cancelamento''" by simp
  from processar_cpf_cancelamento [OF e, of mensagem bd] obtain r conversa1 where
    p: "processar_cpf mensagem ?c bd = (Inr r, conversa1, bd)" and
    s: "cv_estado conversa1 = ''cancelamento''" and
    d: "(\<forall>cpf. extrair_cpf mensagem = Some cpf \<longrightarrow> Paciente_find_by_cpf bd cpf = None) \<longrightarrow>
        cv_dados conversa1 = cv_dados ?c"
    by blast
  have c: "processar_cancelamento mensagem ?c bd = (Inr r, conversa1, bd)"
    using p by (simp add: processar_cancelamento_def Let_def)
  have "despachar amb val mensagem conversa bd = com_resposta (processar_cancelamento mensagem ?c bd)"
    using assms by (simp add: despachar_def Let_def)
  then have "processar_mensagem amb val mensagem conversa bd = (Some r, conversa1, bd)"
    by (simp add: processar_mensagem_def c com_resposta_def)
  with c s d show ?thesis by simp
qed

lemma lower_quero_cancelar: "lower ''quero cancelar'' = ''quero cancelar''"
  by code_simp

lemma quero_cancelar: "eh_cancelamento ''quero cancelar''"
  by (simp add: eh_cancelamento_def lower_quero_cancelar any_in_def palavras_cancelamento_def)

theorem cancel_keyword_enters_cancellation_witness:
  "cv_estado conversa_cadastro \<noteq> ''cancelamento'' \<and> eh_cancelamento ''quero cancelar'' \<and>
   extrair_cpf ''quero cancelar'' = None \<and>
   cv_estado (fst (snd (processar_mensagem amb_ex val_ex ''quero cancelar'' conversa_cadastro bd_ex)))
     = ''cancelamento'' \<and>
   cv_dados (fst (snd (processar_mensagem amb_ex val_ex ''quero cancelar'' conversa_cadastro bd_ex)))
     = []"
proof -
  have a: "cv_estado conversa_cadastro \<noteq> ''cancelamento''" by (simp add: conversa_cadastro_def)
  have n: "extrair_cpf ''quero cancelar'' = None" by (simp add: extrair_cpf_def is_digit_def)
  from cancel_keyword_enters_cancellation [OF a quero_cancelar, of bd_ex amb_ex val_ex] n
  have "cv_estado (fst (snd (processar_mensagem amb_ex val_ex ''quero cancelar'' conversa_cadastro bd_ex)))
          = ''cancelamento'' \<and>
        cv_dados (fst (snd (processar_mensagem amb_ex val_ex ''quero cancelar'' conversa_cadastro bd_ex)))
          = []"
    by auto
  with a quero_cancelar n show ?thesis by blast
qed

lemma lower_cancelar_cpf: "lower ''cancelar 12345678901'' = ''cancelar 12345678901''"
  by code_simp

text \<open>
  Claim C8 as stated fails: from state \<open>inicio\<close>, the message \<open>cancelar 12345678901\<close>,
  which carries the national ID of the registered patient, leaves the draft holding the
  list of that patient's appointments.
\<close>

theorem cancel_keyword_draft_counterexample:
  "cv_estado conversa_nova \<noteq> ''cancelamento'' \<and> eh_cancelamento ''cancelar 12345678901'' \<and>
   processar_mensagem amb_ex val_ex ''cancelar 12345678901'' conversa_nova bd_ex =
     (Some ((resp True ''cancelamento'' ''cancelamento'')
              \<lparr> r_agendamentos := Some (db_agendamentos bd_ex) \<rparr>),
      \<lparr> cv_estado = ''cancelamento'',
        cv_dados = [(''agendamentos_para_cancelar'', DIds [1])],
        cv_paciente_id = Some 1 \<rparr>,
      bd_ex) \<and>
   cv_dados (fst (snd (processar_mensagem amb_ex val_ex ''cancelar 12345678901'' conversa_nova
                         bd_ex))) \<noteq> []"
proof -
  have a: "cv_estado conversa_nova \<noteq> ''cancelamento''" by (simp add: conversa_nova_def)
  have k: "eh_cancelamento ''cancelar 12345678901''"
    by (simp add: eh_cancelamento_def lower_cancelar_cpf any_in_def palavras_cancelamento_def)
  have x: "extrair_cpf ''cancelar 12345678901'' = Some ''12345678901''"
    by (simp add: extrair_cpf_def is_digit_def)
  have p: "processar_mensagem amb_ex val_ex ''cancelar 12345678901'' conversa_nova bd_ex =
     (Some ((resp True ''cancelamento'' ''cancelamento'')
              \<lparr> r_agendamentos := Some (db_agendamentos bd_ex) \<rparr>),
      \<lparr> cv_estado = ''cancelamento'',
        cv_dados = [(''agendamentos_para_cancelar'', DIds [1])],
        cv_paciente_id = Some 1 \<rparr>,
      bd_ex)"
    using a k
    by (simp add: processar_mensagem_def despachar_def Let_def com_resposta_def
          processar_cancelamento_def processar_cpf_def x conversa_nova_def
          processar_cancelamento_cpf_valido_def Paciente_find_by_cpf_def find_first_def
          get_agendamentos_def bd_ex_def)
  show ?thesis using a k p by simp
qed

lemma lower_agendar: "lower ''agendar'' = ''agendar''"
  by code_simp

lemma lower_cpf_99: "lower ''99999999999'' = ''99999999999''"
  by code_simp

text \<open>
  Claim C7 does not hold of the code. In state \<open>cancelamento\<close> the message \<open>99999999999\<close>,
  11 digits that match no patient, is answered with a failure whose \<open>proximo_estado\<close> is
  \<open>inicio\<close>, but \<open>_processar_cpf\<close> never assigns \<open>conversa.estado\<close>: the conversation is
  returned unchanged, still in state \<open>cancelamento\<close>. The next message, \<open>agendar\<close>, is
  therefore handled by the cancellation handler, which asks for the ID again, and not by
  the start handler, which would move to \<open>aguardando_cpf\<close>.
\<close>

theorem unknown_id_keeps_cancellation_state:
  "processar_mensagem amb_ex val_ex ''99999999999'' conversa_cancelamento bd_ex =
     (Some (resp False ''texto'' ''inicio''), conversa_cancelamento, bd_ex) \<and>
   cv_estado conversa_cancelamento = ''cancelamento'' \<and>
   processar_mensagem amb_ex val_ex ''agendar'' conversa_cancelamento bd_ex =
     (Some (resp False ''texto'' ''aguardando_cpf''), conversa_cancelamento, bd_ex) \<and>
   processar_inicio amb_ex ''agendar'' conversa_cancelamento bd_ex =
     (Inr (resp True ''texto'' ''aguardando_cpf''),
      conversa_cancelamento\<lparr> cv_estado := ''aguardando_cpf'' \<rparr>, bd_ex)"
proof -
  have x: "extrair_cpf ''99999999999'' = Some ''99999999999''"
    by (simp add: extrair_cpf_def is_digit_def)
  have y: "extrair_cpf ''agendar'' = None"
    by (simp add: extrair_cpf_def is_digit_def)
  have k: "\<not> eh_cancelamento ''99999999999''" "\<not> eh_saudacao ''99999999999''"
          "\<not> eh_cancelamento ''agendar''" "\<not> eh_saudacao ''agendar''"
    by (simp_all add: eh_cancelamento_def eh_saudacao_def lower_agendar lower_cpf_99 any_in_def
          palavras_cancelamento_def saudacoes_def)
  have a: "processar_mensagem amb_ex val_ex ''99999999999'' conversa_cancelamento bd_ex =
     (Some (resp False ''texto'' ''inicio''), conversa_cancelamento, bd_ex)"
    using k
    by (simp add: processar_mensagem_def despachar_def Let_def com_resposta_def
          processar_cancelamento_def processar_cpf_def x conversa_cancelamento_def
          Paciente_find_by_cpf_def find_first_def bd_ex_def)
  have b: "cv_estado conversa_cancelamento = ''cancelamento''"
    by (simp add: conversa_cancelamento_def)
  have c: "processar_mensagem amb_ex val_ex ''agendar'' conversa_cancelamento bd_ex =
     (Some (resp False ''texto'' ''aguardando_cpf''), conversa_cancelamento, bd_ex)"
    using k
    by (simp add: processar_mensagem_def despachar_def Let_def com_resposta_def
          processar_cancelamento_def processar_cpf_def y conversa_cancelamento_def)
  have t: "detectar_tipo_mensagem amb_ex ''agendar'' = ''agendamento''"
    by (simp add: detectar_tipo_mensagem_def Let_def lower_agendar strip_def is_space_def
          any_in_def amb_ex_def)
  have d: "processar_inicio amb_ex ''agendar'' conversa_cancelamento bd_ex =
     (Inr (resp True ''texto'' ''aguardando_cpf''),
      conversa_cancelamento\<lparr> cv_estado := ''aguardando_cpf'' \<rparr>, bd_ex)"
    by (simp add: processar_inicio_def Let_def t)
  show ?thesis using a b c d by simp
qed

lemma confirmar_agendamento_ok:
  assumes sel: "selecao_no_rascunho dados m e l d h"
    and pac: "cv_paciente_id conversa = Some p"
    and refs: "referencias_existem bd p m e l"
  shows "\<exists>novo. confirmar_agendamento conversa dados bd =
           (Inr ((resp True ''sucesso'' ''finalizado'') \<lparr> r_agendamento_id := Some (ag_id novo) \<rparr>),
            conversa\<lparr> cv_estado := ''finalizado'', cv_dados := [] \<rparr>,
            bd\<lparr> db_agendamentos := db_agendamentos bd @ [novo],
                db_seq_agendamentos := db_seq_agendamentos bd + 1 \<rparr>) \<and>
           ag_paciente_id novo = p \<and> ag_medico_id novo = m \<and> ag_especialidade_id novo = e \<and>
           ag_local_id novo = l \<and> ag_data novo = d \<and> ag_hora novo = h \<and>
           ag_status novo = ''agendado''"
proof -
  have k: "map_of dados ''medico_id'' = Some (DInt m)"
          "map_of dados ''especialidade_id'' = Some (DInt e)"
          "map_of dados ''local_id'' = Some (DInt l)"
          "map_of dados ''data_agendamento'' = Some (DDate d)"
          "map_of dados ''hora_agendamento'' = Some (DStr h)"
    using sel by (simp_all add: selecao_no_rascunho_def)
  obtain v1 v2 v3 v4 where n:
          "map_of dados ''medico_nome'' = Some v1"
          "map_of dados ''especialidade_nome'' = Some v2"
          "map_of dados ''data_formatada'' = Some v3"
          "map_of dados ''hora_formatada'' = Some v4"
    using sel by (auto simp: selecao_no_rascunho_def)
  obtain rp rm re rl where r:
          "Paciente_find_by_id bd p = Some rp" "Medico_find_by_id bd m = Some rm"
          "Especialidade_find_by_id bd e = Some re" "Local_find_by_id bd l = Some rl"
    using refs by (auto simp: referencias_existem_def)
  let ?novo = "\<lparr> ag_id = db_seq_agendamentos bd, ag_paciente_id = p, ag_medico_id = m,
      ag_especialidade_id = e, ag_local_id = l, ag_data = d, ag_hora = h,
      ag_observacoes =
        (if truthy (map_of dados ''anexo_recebido'') then observacao_anexado
         else if \<not> truthy (map_of dados ''anexo_nome'')
         then (if esp_requer_anexo re then observacao_levar else [])
         else []),
      ag_status = ''agendado'',
      ag_anexo_nome = (case as_str (map_of dados ''anexo_nome'') of None \<Rightarrow> [] | Some s \<Rightarrow> s),
      ag_anexo_path =
        (if truthy (map_of dados ''anexo_recebido'')
         then ''anexos/'' @ (case as_str (map_of dados ''anexo_nome'') of None \<Rightarrow> [] | Some s \<Rightarrow> s)
         else []),
      ag_motivo_cancelamento = [] \<rparr>"
  have "confirmar_agendamento conversa dados bd =
           (Inr ((resp True ''sucesso'' ''finalizado'') \<lparr> r_agendamento_id := Some (ag_id ?novo) \<rparr>),
            conversa\<lparr> cv_estado := ''finalizado'', cv_dados := [] \<rparr>,
            bd\<lparr> db_agendamentos := db_agendamentos bd @ [?novo],
                db_seq_agendamentos := db_seq_agendamentos bd + 1 \<rparr>)"
    by (simp add: confirmar_agendamento_def Let_def dict_get_def k n pac r Agendamento_create_def
          first_some_def)
  moreover have "ag_paciente_id ?novo = p \<and> ag_medico_id ?novo = m \<and>
      ag_especialidade_id ?novo = e \<and> ag_local_id ?novo = l \<and> ag_data ?novo = d \<and>
      ag_hora ?novo = h \<and> ag_status ?novo = ''agendado''"
    by simp
  ultimately show ?thesis by blast
qed

text \<open>
  The three branches of \<open>_processar_confirmacao\<close>. The first test asks whether the
  lowercased, stripped message contains one of \<open>sim\<close>, \<open>s\<close>, \<open>confirmo\<close>, \<open>ok\<close>,
  \<open>confirmar\<close>; only when it does not, the second asks for one of \<open>n\<atilde>o\<close>, \<open>nao\<close>, \<open>n\<close>,
  \<open>cancelar\<close>, \<open>voltar\<close>.
\<close>

lemma processar_confirmacao_ramos:
  "(any_in palavras_sim (strip (lower mensagem)) \<longrightarrow>
    selecao_no_rascunho dados m e l d h \<longrightarrow> cv_paciente_id conversa = Some p \<longrightarrow>
    referencias_existem bd p m e l \<longrightarrow>
    (\<exists>novo. processar_confirmacao mensagem conversa dados bd =
       (Inr ((resp True ''sucesso'' ''finalizado'') \<lparr> r_agendamento_id := Some (ag_id novo) \<rparr>),
        conversa\<lparr> cv_estado := ''finalizado'', cv_dados := [] \<rparr>,
        bd\<lparr> db_agendamentos := db_agendamentos bd @ [novo],
            db_seq_agendamentos := db_seq_agendamentos bd + 1 \<rparr>) \<and>
       ag_paciente_id novo = p \<and> ag_medico_id novo = m \<and> ag_especialidade_id novo = e \<and>
       ag_local_id novo = l \<and> ag_data novo = d \<and> ag_hora novo = h \<and>
       ag_status novo = ''agendado'')) \<and>
   (\<not> any_in palavras_sim (strip (lower mensagem)) \<longrightarrow>
    any_in palavras_nao (strip (lower mensagem)) \<longrightarrow>
    processar_confirmacao mensagem conversa dados bd =
      (Inr (resp True ''horarios'' ''horarios''), conversa\<lparr> cv_estado := ''horarios'' \<rparr>, bd)) \<and>
   (\<not> any_in palavras_sim (strip (lower mensagem)) \<longrightarrow>
    \<not> any_in palavras_nao (strip (lower mensagem)) \<longrightarrow>
    processar_confirmacao mensagem conversa dados bd =
      (Inr (resp False ''confirmacao'' ''confirmacao''), conversa, bd))"
proof (intro conjI impI)
  assume sim: "any_in palavras_sim (strip (lower mensagem))"
    and sel: "selecao_no_rascunho dados m e l d h"
    and pac: "cv_paciente_id conversa = Some p"
    and refs: "referencias_existem bd p m e l"
  from confirmar_agendamento_ok [OF sel pac refs] obtain novo where
    c: "confirmar_agendamento conversa dados bd =
           (Inr ((resp True ''sucesso'' ''finalizado'') \<lparr> r_agendamento_id := Some (ag_id novo) \<rparr>),
            conversa\<lparr> cv_estado := ''finalizado'', cv_dados := [] \<rparr>,
            bd\<lparr> db_agendamentos := db_agendamentos bd @ [novo],
                db_seq_agendamentos := db_seq_agendamentos bd + 1 \<rparr>)" and
    f: "ag_paciente_id novo = p \<and> ag_medico_id novo = m \<and> ag_especialidade_id novo = e \<and>
           ag_local_id novo = l \<and> ag_data novo = d \<and> ag_hora novo = h \<and>
           ag_status novo = ''agendado''"
    by blast
  have "processar_confirmacao mensagem conversa dados bd =
           (Inr ((resp True ''sucesso'' ''finalizado'') \<lparr> r_agendamento_id := Some (ag_id novo) \<rparr>),
            conversa\<lparr> cv_estado := ''finalizado'', cv_dados := [] \<rparr>,
            bd\<lparr> db_agendamentos := db_agendamentos bd @ [novo],
                db_seq_agendamentos := db_seq_agendamentos bd + 1 \<rparr>)"
    using sim by (simp add: processar_confirmacao_def Let_def c)
  with f show "\<exists>novo. processar_confirmacao mensagem conversa dados bd =
       (Inr ((resp True ''sucesso'' ''finalizado'') \<lparr> r_agendamento_id := Some (ag_id novo) \<rparr>),
        conversa\<lparr> cv_estado := ''finalizado'', cv_dados := [] \<rparr>,
        bd\<lparr> db_agendamentos := db_agendamentos bd @ [novo],
            db_seq_agendamentos := db_seq_agendamentos bd + 1 \<rparr>) \<and>
       ag_paciente_id novo = p \<and> ag_medico_id novo = m \<and> ag_especialidade_id novo = e \<and>
       ag_local_id novo = l \<and> ag_data novo = d \<and> ag_hora novo = h \<and>
       ag_status novo = ''agendado''"
    by blast
next
  assume "\<not> any_in palavras_sim (strip (lower mensagem))"
    and "any_in palavras_nao (strip (lower mensagem))"
  then show "processar_confirmacao mensagem conversa dados bd =
      (Inr (resp True ''horarios'' ''horarios''), conversa\<lparr> cv_estado := ''horarios'' \<rparr>, bd)"
    by (simp add: processar_confirmacao_def Let_def)
next
  assume "\<not> any_in palavras_sim (strip (lower mensagem))"
    and "\<not> any_in palavras_nao (strip (lower mensagem))"
  then show "processar_confirmacao mensagem conversa dados bd =
      (Inr (resp False ''confirmacao'' ''confirmacao''), conversa, bd)"
    by (simp add: processar_confirmacao_def Let_def)
qed

text \<open>
  The first word list holds the single letter \<open>s\<close>, and the test is a substring test: every
  message with an \<open>s\<close> in it takes the confirming branch, whatever else it says.
\<close>

lemma letra_s_confirma:
  assumes "CHR ''s'' \<in> set (strip (lower mensagem))"
  shows "any_in palavras_sim (strip (lower mensagem))"
proof -
  from assms obtain pre suf where "strip (lower mensagem) = pre @ CHR ''s'' # suf"
    by (auto simp: in_set_conv_decomp)
  then have "strip (lower mensagem) = pre @ ''s'' @ suf" by simp
  then have "\<exists>pre suf. strip (lower mensagem) = pre @ ''s'' @ suf" by blast
  moreover have "''s'' \<in> set palavras_sim" by (simp add: palavras_sim_def)
  ultimately show ?thesis unfolding any_in_iff by blast
qed

lemma lower_respostas:
  "lower ''sim'' = ''sim''" "lower ''nao'' = ''nao''" "lower ''talvez'' = ''talvez''"
  "lower ''nao sei'' = ''nao sei''" "lower ''nao quero mais'' = ''nao quero mais''"
  by code_simp+

lemma strip_respostas:
  "strip ''sim'' = ''sim''" "strip ''nao'' = ''nao''" "strip ''talvez'' = ''talvez''"
  "strip ''nao sei'' = ''nao sei''" "strip ''nao quero mais'' = ''nao quero mais''"
  by (simp_all add: strip_def is_space_def)

lemma respostas_classificadas:
  "any_in palavras_sim ''sim''"
  "\<not> any_in palavras_sim ''nao''" "any_in palavras_nao ''nao''"
  "\<not> any_in palavras_sim ''talvez''" "\<not> any_in palavras_nao ''talvez''"
  "any_in palavras_sim ''nao sei''" "any_in palavras_nao ''nao sei''"
  "any_in palavras_sim ''nao quero mais''" "any_in palavras_nao ''nao quero mais''"
  by (simp_all add: any_in_def palavras_sim_def palavras_nao_def)

lemma selecao_ex: "selecao_no_rascunho dados_selecao 1 1 1 739561 ''08:00''"
  by (simp add: selecao_no_rascunho_def dados_selecao_def dados_horarios_def)

lemma referencias_ex: "referencias_existem bd_ex 1 1 1 1"
  by (simp add: referencias_existem_def bd_ex_def Paciente_find_by_id_def Medico_find_by_id_def
        Especialidade_find_by_id_def Local_find_by_id_def find_first_def)

lemma confirmar_ex:
  "confirmar_agendamento conversa_confirmacao dados_selecao bd_ex =
     (Inr ((resp True ''sucesso'' ''finalizado'') \<lparr> r_agendamento_id := Some 2 \<rparr>),
      \<lparr> cv_estado = ''finalizado'', cv_dados = [], cv_paciente_id = Some 1 \<rparr>,
      bd_ex\<lparr> db_agendamentos := db_agendamentos bd_ex @ [agendado_ex],
             db_seq_agendamentos := 3 \<rparr>)"
proof -
  have refs: "Paciente_find_by_id bd_ex 1 \<noteq> None" "Medico_find_by_id bd_ex 1 \<noteq> None"
      "Local_find_by_id bd_ex 1 \<noteq> None"
      "Especialidade_find_by_id bd_ex 1 =
         Some \<lparr>esp_id = 1, esp_nome = ''Cardiologia'', esp_ativo = True, esp_requer_anexo = True\<rparr>"
    by (simp_all add: bd_ex_def Paciente_find_by_id_def Medico_find_by_id_def
          Especialidade_find_by_id_def Local_find_by_id_def find_first_def)
  have seq: "db_seq_agendamentos bd_ex = 2" by (simp add: bd_ex_def)
  show ?thesis
    using refs
    by (simp add: confirmar_agendamento_def Let_def dict_get_def conversa_confirmacao_def
          dados_selecao_def dados_horarios_def Agendamento_create_def first_some_def seq
          agendado_ex_def)
qed

text \<open>
  Claim C4 does not hold of the code. In state \<open>confirmacao\<close> with a complete selection in
  the draft, the message \<open>nao quero mais\<close> is a negative message: it declines, and it
  contains \<open>nao\<close>, a word of the negative list of \<open>_processar_confirmacao\<close> itself. The
  claim has it discard the selection and return to \<open>horarios\<close>. The code tests the
  affirmative list first, finds its entry \<open>s\<close> inside \<open>mais\<close>, and books: it inserts
  appointment 2 with the drafted doctor, date and time and status \<open>agendado\<close>, clears the
  draft and sets the state to \<open>finalizado\<close>.
\<close>

theorem negative_reply_books_appointment:
  "cv_estado conversa_confirmacao = ''confirmacao'' \<and>
   selecao_no_rascunho (cv_dados conversa_confirmacao) 1 1 1 739561 ''08:00'' \<and>
   any_in palavras_nao (strip (lower ''nao quero mais'')) \<and>
   processar_mensagem amb_ex val_ex ''nao quero mais'' conversa_confirmacao bd_ex =
     (Some ((resp True ''sucesso'' ''finalizado'') \<lparr> r_agendamento_id := Some 2 \<rparr>),
      \<lparr> cv_estado = ''finalizado'', cv_dados = [], cv_paciente_id = Some 1 \<rparr>,
      bd_ex\<lparr> db_agendamentos := db_agendamentos bd_ex @ [agendado_ex],
             db_seq_agendamentos := 3 \<rparr>) \<and>
   map (\<lambda>a. (ag_id a, ag_medico_id a, ag_data a, ag_hora a, ag_status a))
       (db_agendamentos
          (snd (snd (processar_mensagem amb_ex val_ex ''nao quero mais'' conversa_confirmacao
                       bd_ex)))) =
     [(1, 1, 739561, ''08:30'', ''agendado''), (2, 1, 739561, ''08:00'', ''agendado'')]"
proof -
  have e: "cv_estado conversa_confirmacao = ''confirmacao''"
    by (simp add: conversa_confirmacao_def)
  have d: "cv_dados conversa_confirmacao = dados_selecao"
    by (simp add: conversa_confirmacao_def)
  have sel: "selecao_no_rascunho (cv_dados conversa_confirmacao) 1 1 1 739561 ''08:00''"
    unfolding d by (rule selecao_ex)
  have nao: "any_in palavras_nao (strip (lower ''nao quero mais''))"
    by (simp add: lower_respostas strip_respostas respostas_classificadas)
  have sim: "any_in palavras_sim (strip (lower ''nao quero mais''))"
    by (simp add: lower_respostas strip_respostas respostas_classificadas)
  have k: "\<not> eh_cancelamento ''nao quero mais''" "\<not> eh_saudacao ''nao quero mais''"
    by (simp_all add: eh_cancelamento_def eh_saudacao_def lower_respostas any_in_def
          palavras_cancelamento_def saudacoes_def)
  have c: "processar_confirmacao ''nao quero mais'' conversa_confirmacao dados_selecao bd_ex =
     (Inr ((resp True ''sucesso'' ''finalizado'') \<lparr> r_agendamento_id := Some 2 \<rparr>),
      \<lparr> cv_estado = ''finalizado'', cv_dados = [], cv_paciente_id = Some 1 \<rparr>,
      bd_ex\<lparr> db_agendamentos := db_agendamentos bd_ex @ [agendado_ex],
             db_seq_agendamentos := 3 \<rparr>)"
    using sim by (simp add: processar_confirmacao_def Let_def confirmar_ex)
  have p: "processar_mensagem amb_ex val_ex ''nao quero mais'' conversa_confirmacao bd_ex =
     (Some ((resp True ''sucesso'' ''finalizado'') \<lparr> r_agendamento_id := Some 2 \<rparr>),
      \<lparr> cv_estado = ''finalizado'', cv_dados = [], cv_paciente_id = Some 1 \<rparr>,
      bd_ex\<lparr> db_agendamentos := db_agendamentos bd_ex @ [agendado_ex],
             db_seq_agendamentos := 3 \<rparr>)"
    using k by (simp add: processar_mensagem_def despachar_def Let_def com_resposta_def e d c)
  have m: "map (\<lambda>a. (ag_id a, ag_medico_id a, ag_data a, ag_hora a, ag_status a))
       (db_agendamentos
          (bd_ex\<lparr> db_agendamentos := db_agendamentos bd_ex @ [agendado_ex],
                  db_seq_agendamentos := 3 \<rparr>)) =
     [(1, 1, 739561, ''08:30'', ''agendado''), (2, 1, 739561, ''08:00'', ''agendado'')]"
    by (simp add: bd_ex_def agendado_ex_def)
  from e sel nao p m show ?thesis unfolding p by simp
qed

text \<open>
  A negative message without the letter \<open>s\<close>, such as \<open>nao\<close>, reaches the negative branch:
  the state becomes \<open>horarios\<close>, nothing is booked, and the draft is the one the
  conversation had, with the chosen doctor, date and time still in it.
\<close>

lemma negative_reply_keeps_draft:
  "\<not> any_in palavras_sim (strip (lower ''nao'')) \<and> any_in palavras_nao (strip (lower ''nao'')) \<and>
   cv_estado conversa_confirmacao = ''confirmacao'' \<and>
   processar_mensagem amb_ex val_ex ''nao'' conversa_confirmacao bd_ex =
     (Some (resp True ''horarios'' ''horarios''),
      conversa_confirmacao\<lparr> cv_estado := ''horarios'' \<rparr>, bd_ex) \<and>
   selecao_no_rascunho (cv_dados (conversa_confirmacao\<lparr> cv_estado := ''horarios'' \<rparr>))
     1 1 1 739561 ''08:00''"
proof -
  have nao: "\<not> any_in palavras_sim (strip (lower ''nao''))"
            "any_in palavras_nao (strip (lower ''nao''))"
    by (simp_all add: lower_respostas strip_respostas respostas_classificadas)
  have e: "cv_estado conversa_confirmacao = ''confirmacao''"
    by (simp add: conversa_confirmacao_def)
  have k: "\<not> eh_cancelamento ''nao''" "\<not> eh_saudacao ''nao''"
    by (simp_all add: eh_cancelamento_def eh_saudacao_def lower_respostas any_in_def
          palavras_cancelamento_def saudacoes_def)
  have d: "cv_dados conversa_confirmacao = dados_selecao"
    by (simp add: conversa_confirmacao_def)
  have p: "processar_mensagem amb_ex val_ex ''nao'' conversa_confirmacao bd_ex =
     (Some (resp True ''horarios'' ''horarios''),
      conversa_confirmacao\<lparr> cv_estado := ''horarios'' \<rparr>, bd_ex)"
    using nao k
    by (simp add: processar_mensagem_def despachar_def Let_def e com_resposta_def
          processar_confirmacao_def)
  show ?thesis using nao e p selecao_ex by (simp add: d)
qed

lemma lower_flow: "lower ''1'' = ''1''" "lower ''enviei'' = ''enviei''"
  by code_simp+

lemma query_ex: "query_medicos_horarios bd_ex (Some (DInt 1)) (Some (DInt 1)) = rows_ex"
  by (simp add: query_medicos_horarios_def rows_ex_def bd_ex_def)

lemma escolha_ex:
  "interpretar_escolha_horario rel_ex ''1'' horarios_ex = Some (hd horarios_ex)"
  by (simp add: interpretar_escolha_horario_def Let_def strip_def is_space_def numero_match_def
        is_digit_def int_digits_def digit_val_def horarios_ex_def)

lemma passo_escolha:
  "processar_mensagem amb_ex val_ex ''1'' conversa_horarios bd_ex =
     (Some (resp True ''solicitacao_anexo'' ''solicitacao_anexo''), conversa_anexo, bd_placeholder)"
proof -
  have k: "\<not> eh_cancelamento ''1''" "\<not> eh_saudacao ''1''"
    by (simp_all add: eh_cancelamento_def eh_saudacao_def lower_flow any_in_def
          palavras_cancelamento_def saudacoes_def)
  have h: "hd horarios_ex =
      \<lparr> h_medico_id = 1, h_medico_nome = ''Dra. Maria Santos'',
        h_especialidade = ''Cardiologia'', h_crm = Some ''23456-SP'', h_local_id = 1,
        h_local_nome = ''Contagem'', h_data = 739561, h_hora = ''08:00'',
        h_data_formatada = ''06/11/2025'', h_hora_formatada = ''08:00'',
        h_dia_semana = ''Quinta'', h_duracao = 30, h_timestamp = 63898099200 \<rparr>"
    by (simp add: horarios_ex_def)
  have n: "horarios_ex \<noteq> []" by (simp add: horarios_ex_def)
  have r: "rows_ex \<noteq> []" by (simp add: rows_ex_def bd_ex_def)
  have s: "strip ''1'' \<noteq> []" by (simp add: strip_def is_space_def)
  have rel: "am_relogio amb_ex = rel_ex" by (simp add: amb_ex_def)
  have refs: "Paciente_find_by_id bd_ex 1 \<noteq> None" "Medico_find_by_id bd_ex 1 \<noteq> None"
      "Local_find_by_id bd_ex 1 \<noteq> None"
      "Especialidade_find_by_id bd_ex 1 =
         Some \<lparr>esp_id = 1, esp_nome = ''Cardiologia'', esp_ativo = True, esp_requer_anexo = True\<rparr>"
    by (simp_all add: bd_ex_def Paciente_find_by_id_def Medico_find_by_id_def
          Especialidade_find_by_id_def Local_find_by_id_def find_first_def)
  have seq: "db_seq_agendamentos bd_ex = 2" by (simp add: bd_ex_def)
  have p: "processar_horarios amb_ex ''1'' conversa_horarios dados_horarios bd_ex =
     (Inr (resp True ''solicitacao_anexo'' ''solicitacao_anexo''), conversa_anexo, bd_placeholder)"
    using refs
    by (simp add: processar_horarios_def Let_def rel query_ex gerar_ex_full escolha_ex r n s h
          dict_update_def Agendamento_create_def seq conversa_horarios_def conversa_anexo_def
          dados_horarios_def dados_selecao_def bd_placeholder_def placeholder_ex_def)
  have e: "cv_estado conversa_horarios = ''horarios''"
          "cv_dados conversa_horarios = dados_horarios"
    by (simp_all add: conversa_horarios_def)
  show ?thesis
    using k by (simp add: processar_mensagem_def despachar_def Let_def com_resposta_def e p)
qed


lemma passo_enviei:
  "processar_mensagem amb_ex val_ex ''enviei'' conversa_anexo bd_placeholder =
     (Some (resp True ''confirmacao'' ''confirmacao''), conversa_anexo_enviado, bd_placeholder)"
proof -
  have k: "\<not> eh_cancelamento ''enviei''" "\<not> eh_saudacao ''enviei''"
    by (simp_all add: eh_cancelamento_def eh_saudacao_def lower_flow any_in_def
          palavras_cancelamento_def saudacoes_def)
  have e: "cv_estado conversa_anexo = ''solicitacao_anexo''"
    by (simp add: conversa_anexo_def)
  have i: "str_int 1 = ''1''"
    by (simp add: str_int_def dec_digits.simps digit_char_def)
  have p: "processar_solicitacao_anexo ''enviei'' conversa_anexo (cv_dados conversa_anexo)
             bd_placeholder =
     (Inr (resp True ''confirmacao'' ''confirmacao''), conversa_anexo_enviado, bd_placeholder)"
    by (simp add: processar_solicitacao_anexo_def Let_def lower_flow strip_def is_space_def
          any_in_def conversa_anexo_def conversa_anexo_enviado_def dados_selecao_def
          dados_horarios_def i)
  show ?thesis
    using k by (simp add: processar_mensagem_def despachar_def Let_def com_resposta_def e p)
qed

lemma passo_sim:
  "processar_mensagem amb_ex val_ex ''sim'' conversa_anexo_enviado bd_placeholder =
     (Some ((resp True ''sucesso'' ''finalizado'') \<lparr> r_agendamento_id := Some 3 \<rparr>),
      \<lparr> cv_estado = ''finalizado'', cv_dados = [], cv_paciente_id = Some 1 \<rparr>,
      bd_placeholder\<lparr> db_agendamentos := db_agendamentos bd_placeholder @ [confirmado_ex],
                       db_seq_agendamentos := 4 \<rparr>)"
proof -
  have l: "lower ''sim'' = ''sim''" by code_simp
  have k: "\<not> eh_cancelamento ''sim''" "\<not> eh_saudacao ''sim''"
    by (simp_all add: eh_cancelamento_def eh_saudacao_def l any_in_def
          palavras_cancelamento_def saudacoes_def)
  have e: "cv_estado conversa_anexo_enviado = ''confirmacao''"
    by (simp add: conversa_anexo_enviado_def)
  have refs: "Paciente_find_by_id bd_placeholder 1 \<noteq> None"
      "Medico_find_by_id bd_placeholder 1 \<noteq> None"
      "Local_find_by_id bd_placeholder 1 \<noteq> None"
      "Especialidade_find_by_id bd_placeholder 1 \<noteq> None"
    by (simp_all add: bd_placeholder_def bd_ex_def Paciente_find_by_id_def Medico_find_by_id_def
          Especialidade_find_by_id_def Local_find_by_id_def find_first_def)
  have seq: "db_seq_agendamentos bd_placeholder = 3" by (simp add: bd_placeholder_def)
  have c: "confirmar_agendamento conversa_anexo_enviado (cv_dados conversa_anexo_enviado)
             bd_placeholder =
     (Inr ((resp True ''sucesso'' ''finalizado'') \<lparr> r_agendamento_id := Some 3 \<rparr>),
      \<lparr> cv_estado = ''finalizado'', cv_dados = [], cv_paciente_id = Some 1 \<rparr>,
      bd_placeholder\<lparr> db_agendamentos := db_agendamentos bd_placeholder @ [confirmado_ex],
                       db_seq_agendamentos := 4 \<rparr>)"
    using refs
    by (simp add: confirmar_agendamento_def Let_def dict_get_def conversa_anexo_enviado_def
          dados_selecao_def dados_horarios_def Agendamento_create_def first_some_def seq
          confirmado_ex_def)
  have p: "processar_confirmacao ''sim'' conversa_anexo_enviado (cv_dados conversa_anexo_enviado)
             bd_placeholder =
     (Inr ((resp True ''sucesso'' ''finalizado'') \<lparr> r_agendamento_id := Some 3 \<rparr>),
      \<lparr> cv_estado = ''finalizado'', cv_dados = [], cv_paciente_id = Some 1 \<rparr>,
      bd_placeholder\<lparr> db_agendamentos := db_agendamentos bd_placeholder @ [confirmado_ex],
                       db_seq_agendamentos := 4 \<rparr>)"
    by (simp add: processar_confirmacao_def Let_def l strip_def is_space_def any_in_def
          palavras_sim_def c)
  show ?thesis
    using k by (simp add: processar_mensagem_def despachar_def Let_def com_resposta_def e p)
qed

text \<open>
  Claim C6 does not hold of the code. On the example database, whose specialty requires an
  attachment, the dialogue \<open>1\<close> (slot choice), \<open>enviei\<close> (attachment sent), \<open>sim\<close>
  (confirmation) from state \<open>horarios\<close> first inserts the placeholder row 2 with status
  \<open>pendente_anexo\<close>, as the claim says. The confirmation then inserts a separate row 3
  with status \<open>agendado\<close> through \<open>Agendamento.create\<close>; \<open>agendamento_temp_id\<close> is never
  read, and row 2 is left behind with status \<open>pendente_anexo\<close>.
\<close>

theorem placeholder_left_behind:
  "dialogo amb_ex val_ex [''1''] conversa_horarios bd_ex = (conversa_anexo, bd_placeholder) \<and>
   map (\<lambda>a. (ag_id a, ag_status a)) (db_agendamentos bd_placeholder) =
     [(1, ''agendado''), (2, ''pendente_anexo'')] \<and>
   map (\<lambda>a. (ag_id a, ag_medico_id a, ag_data a, ag_hora a, ag_status a))
       (db_agendamentos
          (snd (dialogo amb_ex val_ex [''1'', ''enviei'', ''sim''] conversa_horarios bd_ex))) =
     [(1, 1, 739561, ''08:30'', ''agendado''),
      (2, 1, 739561, ''08:00'', ''pendente_anexo''),
      (3, 1, 739561, ''08:00'', ''agendado'')]"
proof -
  have a: "dialogo amb_ex val_ex [''1''] conversa_horarios bd_ex = (conversa_anexo, bd_placeholder)"
    by (simp add: passo_escolha)
  have b: "map (\<lambda>a. (ag_id a, ag_status a)) (db_agendamentos bd_placeholder) =
     [(1, ''agendado''), (2, ''pendente_anexo'')]"
    by (simp add: bd_placeholder_def bd_ex_def placeholder_ex_def)
  have c: "snd (dialogo amb_ex val_ex [''1'', ''enviei'', ''sim''] conversa_horarios bd_ex) =
     bd_placeholder\<lparr> db_agendamentos := db_agendamentos bd_placeholder @ [confirmado_ex],
                      db_seq_agendamentos := 4 \<rparr>"
    by (simp add: passo_escolha passo_enviei passo_sim)
  have d: "map (\<lambda>a. (ag_id a, ag_medico_id a, ag_data a, ag_hora a, ag_status a))
       (db_agendamentos
          (bd_placeholder\<lparr> db_agendamentos := db_agendamentos bd_placeholder @ [confirmado_ex],
                           db_seq_agendamentos := 4 \<rparr>)) =
     [(1, 1, 739561, ''08:30'', ''agendado''),
      (2, 1, 739561, ''08:00'', ''pendente_anexo''),
      (3, 1, 739561, ''08:00'', ''agendado'')]"
    by (simp add: bd_placeholder_def bd_ex_def placeholder_ex_def confirmado_ex_def)
  from a b d show ?thesis unfolding c by blast
qed

end
